theory Spec2Isabelle
  imports Complex_Main "HOL-Library.AList"
begin

section \<open>Values shared by both scripts\<close>

text \<open>
  Exceptions of the Python run time are values. Every \<open>raise\<close> that the two scripts
  can meet is a branch of the model that returns \<open>Inl\<close> of one of these.
\<close>

datatype py_error =
    KeyError string
  | ValueError string
  | TypeError
  | IndexError
  | OverflowError
  | FileNotFoundError string
  | ApiError string

text \<open>
  A row as \<open>csv.DictReader\<close> yields it: a dict from column names to cells. A cell is a
  text, or Python's \<open>None\<close> under a column that a short row does not reach (the surplus
  of a long row sits under the key \<open>None\<close>, which \<open>main.py\<close> never reads).
  \<open>row[k]\<close> raises \<open>KeyError\<close> for a key the dict does not have.
\<close>

type_synonym row = "string \<rightharpoonup> string option"

definition getitem :: "row \<Rightarrow> string \<Rightarrow> py_error + string option" where
  "getitem r k = (case r k of None \<Rightarrow> Inl (KeyError k) | Some v \<Rightarrow> Inr v)"

text \<open>Of a cell: \<open>not v\<close>, which holds of \<open>None\<close> and of the empty text; \<open>str(v)\<close> as an
  f-string shows it; \<open>int(v)\<close> and \<open>float(v)\<close>, which raise \<open>TypeError\<close> on \<open>None\<close>.\<close>

definition falsy :: "string option \<Rightarrow> bool" where
  "falsy v = (case v of None \<Rightarrow> True | Some s \<Rightarrow> s = [])"

definition py_str :: "string option \<Rightarrow> string" where
  "py_str v = (case v of None \<Rightarrow> ''None'' | Some s \<Rightarrow> s)"

definition convert :: "(string \<Rightarrow> 'a option) \<Rightarrow> string option \<Rightarrow> py_error + 'a" where
  "convert py_conv v =
     (case v of
        None \<Rightarrow> Inl TypeError
      | Some s \<Rightarrow> (case py_conv s of None \<Rightarrow> Inl (ValueError s) | Some x \<Rightarrow> Inr x))"

text \<open>Python's \<open>xs[i]\<close> for an index that is not negative.\<close>

definition item :: "'a list \<Rightarrow> nat \<Rightarrow> py_error + 'a" where
  "item xs i = (if i < length xs then Inr (xs ! i) else Inl IndexError)"

section \<open>main.py: loading the tables\<close>

text \<open>
  The built-ins \<open>int(str)\<close> and \<open>float(str)\<close> are parameters: \<open>None\<close> is the
  \<open>ValueError\<close> they raise on a text they do not accept. The program does no arithmetic
  on a coordinate, so the type \<open>'f\<close> of floats stays abstract.
\<close>

record 'f student =
  student_id :: int
  student_name :: "string option"
  student_lat :: 'f
  student_lon :: 'f

record bus =
  bus_id :: int
  bus_capacity :: int

text \<open>What the program prints, one constructor per \<open>print\<close> call of \<open>main.py\<close>.
  \<open>Distance\<close> and \<open>TotalDistance\<close> carry the integer of metres that the f-string
  shows divided by 1000 with two decimals.\<close>

datatype 'f line =
    SkippingStudent string
  | BusHeader int int
  | AssignedStudents "string option list"
  | RouteCoords "('f \<times> 'f) list"
  | Distance int
  | TotalDistance int
  | Message string

datatype 'f loaded = Skipped string | Kept "'f student"

text \<open>The body of the loop of \<open>load_students\<close> for one row, in the order in which
  Python evaluates it: \<open>row["lat"]\<close>, then \<open>row["lon"]\<close> only when the latitude is not
  empty, then either the warning (which reads \<open>row['name']\<close>) or the dict literal
  (\<open>id\<close>, \<open>name\<close>, \<open>lat\<close>, \<open>lon\<close>).\<close>

definition skip_row :: "row \<Rightarrow> py_error + 'f loaded" where
  "skip_row r =
     (case getitem r ''name'' of Inl e \<Rightarrow> Inl e | Inr n \<Rightarrow> Inr (Skipped (py_str n)))"

definition keep_row ::
  "(string \<Rightarrow> int option) \<Rightarrow> (string \<Rightarrow> 'f option) \<Rightarrow> row \<Rightarrow> string option \<Rightarrow> string option
     \<Rightarrow> py_error + 'f loaded" where
  "keep_row py_int py_float r lat lon =
     (case getitem r ''id'' of Inl e \<Rightarrow> Inl e | Inr i \<Rightarrow>
      (case convert py_int i of Inl e \<Rightarrow> Inl e | Inr iv \<Rightarrow>
       (case getitem r ''name'' of Inl e \<Rightarrow> Inl e | Inr n \<Rightarrow>
        (case convert py_float lat of Inl e \<Rightarrow> Inl e | Inr la \<Rightarrow>
         (case convert py_float lon of Inl e \<Rightarrow> Inl e | Inr lo \<Rightarrow>
            Inr (Kept \<lparr>student_id = iv, student_name = n,
                        student_lat = la, student_lon = lo\<rparr>))))))"

definition load_row ::
  "(string \<Rightarrow> int option) \<Rightarrow> (string \<Rightarrow> 'f option) \<Rightarrow> row \<Rightarrow> py_error + 'f loaded" where
  "load_row py_int py_float r =
     (case getitem r ''lat'' of Inl e \<Rightarrow> Inl e | Inr lat \<Rightarrow>
        if falsy lat then skip_row r
        else (case getitem r ''lon'' of Inl e \<Rightarrow> Inl e | Inr lon \<Rightarrow>
                if falsy lon then skip_row r
                else keep_row py_int py_float r lat lon))"

text \<open>The loop of \<open>load_students\<close>: the warnings printed so far, and either the exception
  that ended the loop or the list \<open>students\<close>.\<close>

fun load_students_rows ::
  "(string \<Rightarrow> int option) \<Rightarrow> (string \<Rightarrow> 'f option) \<Rightarrow> row list
     \<Rightarrow> 'f line list \<times> (py_error + 'f student list)" where
  "load_students_rows py_int py_float [] = ([], Inr [])"
| "load_students_rows py_int py_float (r # rs) =
     (case load_row py_int py_float r of
        Inl e \<Rightarrow> ([], Inl e)
      | Inr (Skipped n) \<Rightarrow>
          (case load_students_rows py_int py_float rs of
             (ls, res) \<Rightarrow> (SkippingStudent n # ls, res))
      | Inr (Kept s) \<Rightarrow>
          (case load_students_rows py_int py_float rs of
             (ls, Inl e) \<Rightarrow> (ls, Inl e)
           | (ls, Inr ss) \<Rightarrow> (ls, Inr (s # ss))))"

text \<open>\<open>open_csv\<close> is the file system seen through \<open>open\<close> and \<open>csv.DictReader\<close>: the
  rows of the file at a path, or \<open>None\<close> when the file cannot be opened.\<close>

definition load_students ::
  "(string \<Rightarrow> row list option) \<Rightarrow> (string \<Rightarrow> int option) \<Rightarrow> (string \<Rightarrow> 'f option) \<Rightarrow> string
     \<Rightarrow> 'f line list \<times> (py_error + 'f student list)" where
  "load_students open_csv py_int py_float csv_file =
     (case open_csv csv_file of
        None \<Rightarrow> ([], Inl (FileNotFoundError csv_file))
      | Some rows \<Rightarrow> load_students_rows py_int py_float rows)"

definition bus_of_row :: "(string \<Rightarrow> int option) \<Rightarrow> row \<Rightarrow> py_error + bus" where
  "bus_of_row py_int r =
     (case getitem r ''id'' of Inl e \<Rightarrow> Inl e | Inr i \<Rightarrow>
      (case convert py_int i of Inl e \<Rightarrow> Inl e | Inr iv \<Rightarrow>
       (case getitem r ''capacity'' of Inl e \<Rightarrow> Inl e | Inr c \<Rightarrow>
        (case convert py_int c of Inl e \<Rightarrow> Inl e | Inr cv \<Rightarrow>
           Inr \<lparr>bus_id = iv, bus_capacity = cv\<rparr>))))"

fun load_buses_rows :: "(string \<Rightarrow> int option) \<Rightarrow> row list \<Rightarrow> py_error + bus list" where
  "load_buses_rows py_int [] = Inr []"
| "load_buses_rows py_int (r # rs) =
     (case bus_of_row py_int r of
        Inl e \<Rightarrow> Inl e
      | Inr b \<Rightarrow> (case load_buses_rows py_int rs of Inl e \<Rightarrow> Inl e | Inr bs \<Rightarrow> Inr (b # bs)))"

definition load_buses ::
  "(string \<Rightarrow> row list option) \<Rightarrow> (string \<Rightarrow> int option) \<Rightarrow> string \<Rightarrow> py_error + bus list" where
  "load_buses open_csv py_int csv_file =
     (case open_csv csv_file of
        None \<Rightarrow> Inl (FileNotFoundError csv_file)
      | Some rows \<Rightarrow> load_buses_rows py_int rows)"

section \<open>main.py: the distance matrix\<close>

text \<open>
  One entry of the JSON table \<open>matrix["distances"]\<close> as Python sees it after decoding:
  \<open>null\<close>, a boolean, an integer, a finite float (its real value), \<open>NaN\<close>, an infinity,
  a text, or a nested array or object. \<open>to_int\<close> is the built-in \<open>int\<close> on it: a float
  is truncated towards zero.
\<close>

datatype entry =
    Null
  | Boolean bool
  | IntNum int
  | FloatNum real
  | NaN
  | Infinity
  | Str string
  | Nested

definition to_int :: "(string \<Rightarrow> int option) \<Rightarrow> entry \<Rightarrow> py_error + int" where
  "to_int py_int d =
     (case d of
        Null \<Rightarrow> Inl TypeError
      | Boolean b \<Rightarrow> Inr (if b then 1 else 0)
      | IntNum i \<Rightarrow> Inr i
      | FloatNum x \<Rightarrow> Inr (if 0 \<le> x then \<lfloor>x\<rfloor> else \<lceil>x\<rceil>)
      | NaN \<Rightarrow> Inl (ValueError ''nan'')
      | Infinity \<Rightarrow> Inl OverflowError
      | Str s \<Rightarrow> (case py_int s of None \<Rightarrow> Inl (ValueError s) | Some i \<Rightarrow> Inr i)
      | Nested \<Rightarrow> Inl TypeError)"

text \<open>The request that \<open>build_distance_matrix_ors\<close> sends: the keyword arguments of
  \<open>client.distance_matrix\<close>.\<close>

record 'f matrix_request =
  locations :: "('f \<times> 'f) list"
  profile :: string
  metrics :: "string list"
  units :: string

definition distance_matrix_request :: "('f \<times> 'f) list \<Rightarrow> 'f matrix_request" where
  "distance_matrix_request coords_in =
     \<lparr>locations = coords_in, profile = ''driving-car'',
      metrics = [''distance''], units = ''m''\<rparr>"

text \<open>The two nested comprehensions \<open>[[int(d) for d in row] for row in distances]\<close>:
  the first entry that \<open>int\<close> rejects, in row-major order, ends the build.\<close>

fun int_row :: "(string \<Rightarrow> int option) \<Rightarrow> entry list \<Rightarrow> py_error + int list" where
  "int_row py_int [] = Inr []"
| "int_row py_int (d # ds) =
     (case to_int py_int d of
        Inl e \<Rightarrow> Inl e
      | Inr i \<Rightarrow> (case int_row py_int ds of Inl e \<Rightarrow> Inl e | Inr is \<Rightarrow> Inr (i # is)))"

fun int_rows :: "(string \<Rightarrow> int option) \<Rightarrow> entry list list \<Rightarrow> py_error + int list list" where
  "int_rows py_int [] = Inr []"
| "int_rows py_int (r # rs) =
     (case int_row py_int r of
        Inl e \<Rightarrow> Inl e
      | Inr is \<Rightarrow> (case int_rows py_int rs of Inl e \<Rightarrow> Inl e | Inr m \<Rightarrow> Inr (is # m)))"

text \<open>The client is the provider: it raises, or returns a response in which the key
  \<open>"distances"\<close> is absent (\<open>None\<close>) or holds a table of entries.\<close>

type_synonym 'f ors_client = "'f matrix_request \<Rightarrow> py_error + entry list list option"

definition build_distance_matrix_ors ::
  "(string \<Rightarrow> int option) \<Rightarrow> 'f ors_client \<Rightarrow> ('f \<times> 'f) list \<Rightarrow> py_error + int list list" where
  "build_distance_matrix_ors py_int client coords_in =
     (case client (distance_matrix_request coords_in) of
        Inl e \<Rightarrow> Inl e
      | Inr None \<Rightarrow> Inl (KeyError ''distances'')
      | Inr (Some distances) \<Rightarrow> int_rows py_int distances)"

section \<open>main.py: the data model\<close>

record 'f data_model =
  distance_matrix :: "int list list"
  demands :: "int list"
  vehicle_capacities :: "int list"
  num_vehicles :: nat
  depot :: nat
  coords :: "('f \<times> 'f) list"
  students :: "'f student list"
  buses :: "bus list"

text \<open>\<open>openrouteservice\<close> is the provider as a function of the API key:
  \<open>openrouteservice.Client(key=ors_key)\<close> is \<open>openrouteservice ors_key\<close>.
  \<open>model_coords\<close> is the list \<open>coords\<close>: the depot, then \<open>(lon, lat)\<close> of each
  student.\<close>

definition model_coords :: "'f \<times> 'f \<Rightarrow> 'f student list \<Rightarrow> ('f \<times> 'f) list" where
  "model_coords school_coords students_in =
     school_coords # map (\<lambda>s. (student_lon s, student_lat s)) students_in"

definition create_data_model ::
  "(string \<Rightarrow> int option) \<Rightarrow> (string \<Rightarrow> 'f ors_client) \<Rightarrow> 'f student list \<Rightarrow> bus list
     \<Rightarrow> 'f \<times> 'f \<Rightarrow> string \<Rightarrow> py_error + 'f data_model" where
  "create_data_model py_int openrouteservice students_in buses_in school_coords ors_key =
     (let client = openrouteservice ors_key;
          coords_in = model_coords school_coords students_in
      in case build_distance_matrix_ors py_int client coords_in of
           Inl e \<Rightarrow> Inl e
         | Inr matrix \<Rightarrow>
             Inr \<lparr>distance_matrix = matrix,
                  demands = 0 # replicate (length students_in) 1,
                  vehicle_capacities = map bus_capacity buses_in,
                  num_vehicles = length buses_in,
                  depot = 0,
                  coords = coords_in,
                  students = students_in,
                  buses = buses_in\<rparr>)"

section \<open>main.py: the reporter\<close>

text \<open>
  What \<open>print_solution\<close> reads of OR-Tools: \<open>routing.Start\<close>, \<open>routing.IsEnd\<close>,
  \<open>manager.IndexToNode\<close> and \<open>routing.GetArcCostForVehicle\<close> are the fields of a
  record, and the solution is the successor \<open>solution.Value(routing.NextVar(index))\<close>
  of every index.
\<close>

record routing =
  Start :: "nat \<Rightarrow> nat"
  IsEnd :: "nat \<Rightarrow> bool"
  IndexToNode :: "nat \<Rightarrow> nat"
  GetArcCostForVehicle :: "nat \<Rightarrow> nat \<Rightarrow> nat \<Rightarrow> int"

type_synonym assignment = "nat \<Rightarrow> nat"

text \<open>\<open>data["students"][node-1]["name"]\<close> is read only for a node that is not the depot;
  the index raises \<open>IndexError\<close> past the end of the list.\<close>

definition append_student ::
  "'f student list \<Rightarrow> nat \<Rightarrow> string option list \<Rightarrow> py_error + string option list" where
  "append_student studs node route_students =
     (if node \<noteq> 0
      then (case item studs (node - 1) of
              Inl e \<Rightarrow> Inl e
            | Inr s \<Rightarrow> Inr (route_students @ [student_name s]))
      else Inr route_students)"

text \<open>The \<open>while not routing.IsEnd(index)\<close> loop. It follows the successors of the
  solution and need not end, so it is a partial function: \<open>None\<close> is a loop that never
  leaves.\<close>

partial_function (option) route_loop ::
  "'f student list \<Rightarrow> routing \<Rightarrow> assignment \<Rightarrow> nat \<Rightarrow> nat \<Rightarrow> string option list \<Rightarrow> nat list
     \<Rightarrow> int \<Rightarrow> (py_error + string option list \<times> nat list \<times> int) option" where
  "route_loop studs R solution v index route_students route_nodes route_dist =
     (if IsEnd R index then Some (Inr (route_students, route_nodes, route_dist))
      else (case append_student studs (IndexToNode R index) route_students of
              Inl e \<Rightarrow> Some (Inl e)
            | Inr route_students' \<Rightarrow>
                route_loop studs R solution v (solution index) route_students'
                  (route_nodes @ [IndexToNode R index])
                  (route_dist + GetArcCostForVehicle R index (solution index) v)))"

text \<open>\<open>[data["coords"][n] for n in route_nodes]\<close>.\<close>

fun route_coords :: "('f \<times> 'f) list \<Rightarrow> nat list \<Rightarrow> py_error + ('f \<times> 'f) list" where
  "route_coords cs [] = Inr []"
| "route_coords cs (n # ns) =
     (case item cs n of
        Inl e \<Rightarrow> Inl e
      | Inr c \<Rightarrow> (case route_coords cs ns of Inl e \<Rightarrow> Inl e | Inr xs \<Rightarrow> Inr (c # xs)))"

text \<open>The four prints of a bus that carries somebody; a bus with no student prints
  nothing.\<close>

definition report_route ::
  "'f data_model \<Rightarrow> nat \<Rightarrow> string option list \<Rightarrow> nat list \<Rightarrow> int
     \<Rightarrow> 'f line list \<times> py_error option" where
  "report_route data v route_students route_nodes route_dist =
     (if length route_students > 0
      then (case item (buses data) v of
              Inl e \<Rightarrow> ([], Some e)
            | Inr b \<Rightarrow>
                (case route_coords (coords data) route_nodes of
                   Inl e \<Rightarrow>
                     ([BusHeader (bus_id b) (bus_capacity b), AssignedStudents route_students],
                      Some e)
                 | Inr cs \<Rightarrow>
                     ([BusHeader (bus_id b) (bus_capacity b), AssignedStudents route_students,
                       RouteCoords cs, Distance route_dist], None)))
      else ([], None))"

text \<open>The \<open>for v in range(data["num_vehicles"])\<close> loop with its accumulator
  \<open>total_dist\<close>; \<open>total_dist += route_dist\<close> is outside the \<open>if\<close>, so every vehicle
  is added.\<close>

fun vehicles_loop ::
  "'f data_model \<Rightarrow> routing \<Rightarrow> assignment \<Rightarrow> nat list \<Rightarrow> int
     \<Rightarrow> ('f line list \<times> (py_error + int)) option" where
  "vehicles_loop data R solution [] total_dist = Some ([], Inr total_dist)"
| "vehicles_loop data R solution (v # vs) total_dist =
     (case route_loop (students data) R solution v (Start R v) [] [] 0 of
        None \<Rightarrow> None
      | Some (Inl e) \<Rightarrow> Some ([], Inl e)
      | Some (Inr (route_students, route_nodes, route_dist)) \<Rightarrow>
          (case report_route data v route_students (route_nodes @ [0]) route_dist of
             (ls, Some e) \<Rightarrow> Some (ls, Inl e)
           | (ls, None) \<Rightarrow>
               (case vehicles_loop data R solution vs (total_dist + route_dist) of
                  None \<Rightarrow> None
                | Some (ls', res) \<Rightarrow> Some (ls @ ls', res))))"

definition print_solution ::
  "'f data_model \<Rightarrow> routing \<Rightarrow> assignment \<Rightarrow> ('f line list \<times> py_error option) option" where
  "print_solution data R solution =
     (case vehicles_loop data R solution [0..<num_vehicles data] 0 of
        None \<Rightarrow> None
      | Some (ls, Inl e) \<Rightarrow> Some (ls, Some e)
      | Some (ls, Inr total_dist) \<Rightarrow> Some (ls @ [TotalDistance total_dist], None))"

section \<open>main.py: the entry point\<close>

text \<open>
  What \<open>optimize_with_ors\<close> hands to OR-Tools before it solves: the arguments of
  \<open>RoutingIndexManager\<close> (node count, vehicle count, depot), the table that the transit
  callback reads, and the arguments of \<open>AddDimensionWithVehicleCapacity\<close> with the table
  that the demand callback reads.
\<close>

record vrp_model =
  model_num_nodes :: nat
  model_num_vehicles :: nat
  model_depot :: nat
  model_arc_costs :: "int list list"
  model_demands :: "int list"
  model_slack_max :: int
  model_capacities :: "int list"
  model_fix_start_cumul_to_zero :: bool
  model_dimension :: string

datatype first_solution_strategy =
  AUTOMATIC_STRATEGY | PATH_CHEAPEST_ARC | SAVINGS | PARALLEL_CHEAPEST_INSERTION

datatype local_search_metaheuristic =
  AUTOMATIC_SEARCH | GREEDY_DESCENT | GUIDED_LOCAL_SEARCH | SIMULATED_ANNEALING | TABU_SEARCH

record search_parameters =
  first_solution :: first_solution_strategy
  metaheuristic :: local_search_metaheuristic
  time_limit_seconds :: int

definition routing_model_of :: "'f data_model \<Rightarrow> vrp_model" where
  "routing_model_of data =
     \<lparr>model_num_nodes = length (distance_matrix data),
      model_num_vehicles = num_vehicles data,
      model_depot = depot data,
      model_arc_costs = distance_matrix data,
      model_demands = demands data,
      model_slack_max = 0,
      model_capacities = vehicle_capacities data,
      model_fix_start_cumul_to_zero = True,
      model_dimension = ''Capacity''\<rparr>"

definition routing_search_parameters :: search_parameters where
  "routing_search_parameters =
     \<lparr>first_solution = PATH_CHEAPEST_ARC,
      metaheuristic = GUIDED_LOCAL_SEARCH,
      time_limit_seconds = 10\<rparr>"

text \<open>
  Everything outside the program: the files, the two built-ins, the distance provider
  and OR-Tools. \<open>env_routing\<close> is what the program builds on a model before it solves
  (\<open>RoutingIndexManager\<close>, \<open>RoutingModel\<close>, the two callbacks registered, the capacity
  dimension added), as the reporter reads it afterwards; \<open>env_solve\<close> is
  \<open>routing.SolveWithParameters\<close>, during which OR-Tools calls the two callbacks:
  \<open>None\<close> is the falsy result. Either may raise. The record holds the answers that
  one run meets; whether OR-Tools, searching under its time limit, gives the same answer
  to the same model twice is not part of it.
\<close>

record 'f env =
  env_open_csv :: "string \<Rightarrow> row list option"
  env_int :: "string \<Rightarrow> int option"
  env_float :: "string \<Rightarrow> 'f option"
  env_openrouteservice :: "string \<Rightarrow> 'f ors_client"
  env_routing :: "vrp_model \<Rightarrow> py_error + routing"
  env_solve :: "vrp_model \<Rightarrow> search_parameters \<Rightarrow> py_error + assignment option"

text \<open>A run is the sequence of its effects (a line printed, the matrix request, the
  call of the solver) and the exception that ended it, if one did.\<close>

datatype 'f event =
    Print "'f line"
  | DistanceMatrix string "'f matrix_request"
  | Solve vrp_model search_parameters

definition optimize_with_ors ::
  "'f env \<Rightarrow> string \<Rightarrow> string \<Rightarrow> 'f \<Rightarrow> 'f \<Rightarrow> string \<Rightarrow> ('f event list \<times> py_error option) option" where
  "optimize_with_ors env students_csv buses_csv school_lat school_lon ors_key =
     (case load_students (env_open_csv env) (env_int env) (env_float env) students_csv of
        (ws, Inl e) \<Rightarrow> Some (map Print ws, Some e)
      | (ws, Inr students_in) \<Rightarrow>
     (case load_buses (env_open_csv env) (env_int env) buses_csv of
        Inl e \<Rightarrow> Some (map Print ws, Some e)
      | Inr buses_in \<Rightarrow>
     (let school_coords = (school_lon, school_lat);
          request = DistanceMatrix ors_key
                      (distance_matrix_request (model_coords school_coords students_in))
      in case create_data_model (env_int env) (env_openrouteservice env)
                students_in buses_in school_coords ors_key of
           Inl e \<Rightarrow> Some (map Print ws @ [request], Some e)
         | Inr data \<Rightarrow>
     (let model = routing_model_of data
      in case env_routing env model of
           Inl e \<Rightarrow> Some (map Print ws @ [request], Some e)
         | Inr routing \<Rightarrow>
     (let params = routing_search_parameters
      in case env_solve env model params of
           Inl e \<Rightarrow> Some (map Print ws @ [request, Solve model params], Some e)
         | Inr None \<Rightarrow>
             Some (map Print ws @ [request, Solve model params,
                                    Print (Message ''No solution found.'')], None)
         | Inr (Some solution) \<Rightarrow>
             (case print_solution data routing solution of
                None \<Rightarrow> None
              | Some (ls, err) \<Rightarrow>
                  Some (map Print ws @ [request, Solve model params] @ map Print ls, err)))))))"

section \<open>geocode_addresses.py\<close>

text \<open>
  Here a row is written back, so its keys matter: a row is the dict as an association
  list, in the order of insertion. A key is a column name, or Python's \<open>None\<close>, the
  \<open>restkey\<close> under which \<open>csv.DictReader\<close> stores the surplus cells of a row that is
  longer than the header. A value is a text of the input file, Python's \<open>None\<close> (the
  \<open>restval\<close> that the reader gives a column for which a short row has no cell), the list
  of surplus cells, or a coordinate that the geocoder returned (\<open>'c\<close> is whatever JSON
  value that is). \<open>csv.writer\<close> writes \<open>None\<close> as the empty field.
\<close>

datatype 'c cell = Text string | NoneCell | Surplus "string list" | Coord 'c

type_synonym 'c csv_row = "(string option \<times> 'c cell) list"

text \<open>
  \<open>csv.DictReader\<close> over the rows of cells that \<open>csv.reader\<close> parses from the file.
  \<open>reader.fieldnames\<close> is the first row, blank or not, and \<open>None\<close> for an empty file.
  Every later row that is not blank becomes \<open>dict(zip(fieldnames, row))\<close>, where the
  last cell under a repeated name stays; then a longer row gets the \<open>None\<close> key and a
  shorter row gets \<open>None\<close> under every column it does not reach.
\<close>

definition dict_of_row :: "string list \<Rightarrow> string list \<Rightarrow> 'c csv_row" where
  "dict_of_row fieldnames row =
     (let d = AList.updates (map Some fieldnames) (map Text row) [];
          lf = length fieldnames;
          lr = length row
      in if lf < lr then AList.update None (Surplus (drop lf row)) d
         else if lf > lr then fold (\<lambda>key. AList.update (Some key) NoneCell) (drop lr fieldnames) d
         else d)"

definition DictReader :: "string list list \<Rightarrow> string list option \<times> 'c csv_row list" where
  "DictReader lines =
     (case lines of
        [] \<Rightarrow> (None, [])
      | header # rows \<Rightarrow> (Some header, map (dict_of_row header) (filter (\<lambda>row. row \<noteq> []) rows)))"

text \<open>The response of \<open>client.pelias_search(addr, size=1)\<close>: an exception, or a dict
  whose key \<open>"features"\<close> is absent (\<open>None\<close>) or a list; a feature is its
  \<open>["geometry"]["coordinates"]\<close>, \<open>None\<close> when one of the two keys is absent. The
  address is the value of the row as it is.\<close>

type_synonym 'c geocoder = "'c cell \<Rightarrow> py_error + 'c list option list option"

datatype 'c geo_line = GeocodingFailed "'c cell" py_error | OutputWritten string

text \<open>The body of the \<open>try\<close>: the pair \<open>(lon, lat)\<close> it assigns, or the exception it
  raises. The right-hand side \<open>coords[0], coords[1]\<close> is evaluated before either key is
  assigned.\<close>

definition lookup_coordinates :: "'c geocoder \<Rightarrow> 'c cell \<Rightarrow> py_error + 'c cell \<times> 'c cell" where
  "lookup_coordinates client addr =
     (case client addr of
        Inl e \<Rightarrow> Inl e
      | Inr None \<Rightarrow> Inl (KeyError ''features'')
      | Inr (Some []) \<Rightarrow> Inr (Text [], Text [])
      | Inr (Some (None # _)) \<Rightarrow> Inl (KeyError ''geometry'')
      | Inr (Some (Some cs # _)) \<Rightarrow>
          (case item cs 0 of
             Inl e \<Rightarrow> Inl e
           | Inr c0 \<Rightarrow> (case item cs 1 of Inl e \<Rightarrow> Inl e | Inr c1 \<Rightarrow> Inr (Coord c0, Coord c1))))"

text \<open>\<open>csv.DictWriter.writerow\<close>: a key that is not a field name raises \<open>ValueError\<close>;
  a field name that is not a key is written as the empty text. The result is the list of
  values handed to \<open>csv.writer\<close>.\<close>

definition writerow :: "string list \<Rightarrow> 'c csv_row \<Rightarrow> py_error + 'c cell list" where
  "writerow fieldnames r =
     (if list_all (\<lambda>k. k \<in> Some ` set fieldnames) (map fst r)
      then Inr (map (\<lambda>k. case map_of r (Some k) of None \<Rightarrow> Text [] | Some c \<Rightarrow> c) fieldnames)
      else Inl (ValueError ''dict contains fields not in fieldnames''))"

text \<open>One turn of the loop: the address queried, the line printed by the handler, and
  the row written or the exception that leaves the loop. \<open>row["address"]\<close> and
  \<open>writer.writerow(row)\<close> are outside the \<open>try\<close>.\<close>

definition geocode_row ::
  "'c geocoder \<Rightarrow> string list \<Rightarrow> 'c csv_row
     \<Rightarrow> 'c cell list \<times> 'c geo_line list \<times> (py_error + 'c cell list)" where
  "geocode_row client fieldnames r =
     (case map_of r (Some ''address'') of
        None \<Rightarrow> ([], [], Inl (KeyError ''address''))
      | Some addr \<Rightarrow>
          (case (case lookup_coordinates client addr of
                   Inl e \<Rightarrow> ([GeocodingFailed addr e], Text [], Text [])
                 | Inr (lon, lat) \<Rightarrow> ([], lon, lat)) of
             (msgs, lon, lat) \<Rightarrow>
               ([addr], msgs,
                writerow fieldnames
                  (AList.update (Some ''lat'') lat (AList.update (Some ''lon'') lon r)))))"

record 'c geo_run =
  written_header :: "string list option"
  written_rows :: "'c cell list list"
  queried :: "'c cell list"
  printed :: "'c geo_line list"
  raised :: "py_error option"

fun geocode_rows ::
  "'c geocoder \<Rightarrow> string list \<Rightarrow> 'c csv_row list
     \<Rightarrow> 'c cell list list \<times> 'c cell list \<times> 'c geo_line list \<times> py_error option" where
  "geocode_rows client fieldnames [] = ([], [], [], None)"
| "geocode_rows client fieldnames (r # rs) =
     (case geocode_row client fieldnames r of
        (qs, ms, Inl e) \<Rightarrow> ([], qs, ms, Some e)
      | (qs, ms, Inr out) \<Rightarrow>
          (case geocode_rows client fieldnames rs of
             (w, q, p, e) \<Rightarrow> (out # w, qs @ q, ms @ p, e)))"

text \<open>The input is what \<open>csv.DictReader\<close> gives: \<open>reader.fieldnames\<close> (\<open>None\<close> for an
  empty file, where \<open>None + [...]\<close> raises \<open>TypeError\<close> before anything is written) and
  the rows.\<close>

definition geocode_addresses ::
  "'c geocoder \<Rightarrow> string list option \<times> 'c csv_row list \<Rightarrow> string \<Rightarrow> 'c geo_run" where
  "geocode_addresses client input output_csv =
     (case fst input of
        None \<Rightarrow> \<lparr>written_header = None, written_rows = [], queried = [], printed = [],
                 raised = Some TypeError\<rparr>
      | Some header \<Rightarrow>
          (let fieldnames = header @ [''lat'', ''lon'']
           in case geocode_rows client fieldnames (snd input) of
                (w, q, p, None) \<Rightarrow>
                  \<lparr>written_header = Some fieldnames, written_rows = w, queried = q,
                   printed = p @ [OutputWritten output_csv], raised = None\<rparr>
              | (w, q, p, Some e) \<Rightarrow>
                  \<lparr>written_header = Some fieldnames, written_rows = w, queried = q,
                   printed = p, raised = Some e\<rparr>))"

section \<open>The properties, in the words of the specification\<close>

text \<open>A record is unresolved when its latitude or its longitude is empty: the empty
  text, or no cell at all in a row that ends before the column.\<close>

definition empty_cell :: "string option option \<Rightarrow> bool" where
  "empty_cell c = (c = Some None \<or> c = Some (Some []))"

definition unresolved :: "row \<Rightarrow> bool" where
  "unresolved r = (empty_cell (r ''lat'') \<or> empty_cell (r ''lon''))"

text \<open>What \<open>int\<close> or \<open>float\<close> reads in the cell of a column, if anything.\<close>

definition read_cell :: "(string \<Rightarrow> 'a option) \<Rightarrow> row \<Rightarrow> string \<Rightarrow> 'a option" where
  "read_cell py_conv r k =
     (case r k of None \<Rightarrow> None | Some None \<Rightarrow> None | Some (Some s) \<Rightarrow> py_conv s)"

text \<open>A stop of the model is the record it was read from: same identity, same name,
  the two coordinates as \<open>float\<close> reads them.\<close>

definition loaded_from ::
  "(string \<Rightarrow> int option) \<Rightarrow> (string \<Rightarrow> 'f option) \<Rightarrow> 'f student \<Rightarrow> row \<Rightarrow> bool" where
  "loaded_from py_int py_float s r =
     (read_cell py_int r ''id'' = Some (student_id s) \<and>
      r ''name'' = Some (student_name s) \<and>
      read_cell py_float r ''lat'' = Some (student_lat s) \<and>
      read_cell py_float r ''lon'' = Some (student_lon s))"

text \<open>The report of an exclusion names the record.\<close>

definition warned_for :: "'f line \<Rightarrow> row \<Rightarrow> bool" where
  "warned_for l r =
     (case r ''name'' of None \<Rightarrow> False | Some n \<Rightarrow> l = SkippingStudent (py_str n))"

text \<open>The entries that \<open>int\<close> does not convert.\<close>

definition int_rejects :: "(string \<Rightarrow> int option) \<Rightarrow> entry \<Rightarrow> bool" where
  "int_rejects py_int d =
     (case d of Null \<Rightarrow> True | NaN \<Rightarrow> True | Infinity \<Rightarrow> True | Nested \<Rightarrow> True
      | Str s \<Rightarrow> py_int s = None | _ \<Rightarrow> False)"

text \<open>A route of the solution from an index: the indices visited, each the successor of
  the one before, the last one (and no earlier one) an end.\<close>

fun is_route :: "routing \<Rightarrow> assignment \<Rightarrow> nat \<Rightarrow> nat list \<Rightarrow> bool" where
  "is_route R solution i [] = False"
| "is_route R solution i [j] = (j = i \<and> IsEnd R i)"
| "is_route R solution i (j # k # p) =
     (j = i \<and> \<not> IsEnd R i \<and> k = solution i \<and> is_route R solution k (k # p))"

text \<open>The distance of a route: the sum of the costs of its consecutive arcs, each in the
  direction of travel.\<close>

definition route_distance :: "routing \<Rightarrow> nat \<Rightarrow> nat list \<Rightarrow> int" where
  "route_distance R v p = (\<Sum>(a, b) \<leftarrow> zip p (tl p). GetArcCostForVehicle R a b v)"

text \<open>The nodes of a route lie within the tables of the data model.\<close>

definition nodes_in_range :: "'f data_model \<Rightarrow> routing \<Rightarrow> nat list \<Rightarrow> bool" where
  "nodes_in_range data R p =
     (\<forall>i \<in> set p. IndexToNode R i \<le> length (students data) \<and>
                   IndexToNode R i < length (coords data))"

text \<open>The cells of a row of the input file, in order, as they are to stand in the output
  under the columns of the input header: the texts of the row itself, and an empty field
  (\<open>None\<close> to \<open>csv.writer\<close>) for every column that a short row does not reach.\<close>

definition original_cells :: "string list \<Rightarrow> string list \<Rightarrow> 'c cell list" where
  "original_cells header row =
     map Text row @ replicate (length header - length row) NoneCell"

text \<open>The cell of a row under the address column.\<close>

definition address_cell :: "string list \<Rightarrow> string list \<Rightarrow> 'c cell option" where
  "address_cell header row = map_of (zip header (original_cells header row)) ''address''"

text \<open>Geocoding an address fails: the geocoder raises, or its answer has no list of
  features, an empty list of features, a first feature without coordinates, or fewer
  than two coordinates.\<close>

definition geocoding_failed :: "'c geocoder \<Rightarrow> 'c cell \<Rightarrow> bool" where
  "geocoding_failed client addr =
     (case client addr of
        Inl e \<Rightarrow> True
      | Inr None \<Rightarrow> True
      | Inr (Some []) \<Rightarrow> True
      | Inr (Some (None # _)) \<Rightarrow> True
      | Inr (Some (Some cs # _)) \<Rightarrow> length cs < 2)"

text \<open>The addresses of the rows, in order.\<close>

definition addresses :: "'c csv_row list \<Rightarrow> 'c cell list" where
  "addresses rows = List.map_filter (\<lambda>r. map_of r (Some ''address'')) rows"

text \<open>Whether a row can be written depends on its keys only.\<close>

definition writable :: "string list \<Rightarrow> 'c csv_row \<Rightarrow> bool" where
  "writable fieldnames r =
     (''lat'' \<in> set fieldnames \<and> ''lon'' \<in> set fieldnames \<and>
      fst ` set r \<subseteq> Some ` set fieldnames)"

text \<open>The two cells that a turn of the loop assigns.\<close>

definition assigned :: "'c geocoder \<Rightarrow> 'c cell \<Rightarrow> 'c cell \<times> 'c cell" where
  "assigned client addr =
     (case lookup_coordinates client addr of Inl e \<Rightarrow> (Text [], Text []) | Inr p \<Rightarrow> p)"


section \<open>Concrete inputs\<close>

text \<open>A geocoder that finds the first address, raises on the second, returns no
  feature for the third and an answer without features for a missing address;
  coordinates are whole numbers here. The file has a short last row.\<close>

definition example_geocoder :: "int geocoder" where
  "example_geocoder addr =
     (if addr = Text ''A'' then Inr (Some [Some [76, 30]])
      else if addr = Text ''B'' then Inl (ApiError ''timeout'')
      else if addr = NoneCell then Inr None
      else Inr (Some []))"

definition example_addresses :: "string list list" where
  "example_addresses =
     [[''name'', ''address''],
      [''Asha'', ''A''],
      [''Bir'', ''B''],
      [''Chand'', ''C''],
      [''Dev'']]"

text \<open>Four student records, the second with empty coordinates and the last from a row
  that ends after the name; \<open>int\<close> on the identities, and floats kept as their texts.\<close>

definition example_asha :: row where
  "example_asha =
     [''id'' \<mapsto> Some ''1'', ''name'' \<mapsto> Some ''Asha'',
      ''lat'' \<mapsto> Some ''30.35'', ''lon'' \<mapsto> Some ''76.36'']"

definition example_bir :: row where
  "example_bir =
     [''id'' \<mapsto> Some ''2'', ''name'' \<mapsto> Some ''Bir'', ''lat'' \<mapsto> Some [], ''lon'' \<mapsto> Some []]"

definition example_chand :: row where
  "example_chand =
     [''id'' \<mapsto> Some ''3'', ''name'' \<mapsto> Some ''Chand'',
      ''lat'' \<mapsto> Some ''30.34'', ''lon'' \<mapsto> Some ''76.38'']"

definition example_dev :: row where
  "example_dev =
     [''id'' \<mapsto> Some ''4'', ''name'' \<mapsto> Some ''Dev'', ''lat'' \<mapsto> None, ''lon'' \<mapsto> None]"

definition example_rows :: "row list" where
  "example_rows = [example_asha, example_bir, example_chand, example_dev]"

definition example_students :: "string student list" where
  "example_students =
     [\<lparr>student_id = 1, student_name = Some ''Asha'', student_lat = ''30.35'', student_lon = ''76.36''\<rparr>,
      \<lparr>student_id = 3, student_name = Some ''Chand'', student_lat = ''30.34'', student_lon = ''76.38''\<rparr>]"

definition example_int :: "string \<Rightarrow> int option" where
  "example_int = [''1'' \<mapsto> 1, ''2'' \<mapsto> 2, ''3'' \<mapsto> 3, ''4'' \<mapsto> 4]"

definition example_float :: "string \<Rightarrow> string option" where
  "example_float s = (if s = [] then None else Some s)"

definition example_matrix :: "entry list list" where
  "example_matrix =
     [[IntNum 0, FloatNum 5.7, IntNum 7],
      [FloatNum 5.2, IntNum 0, IntNum 3],
      [IntNum 7, IntNum 3, IntNum 0]]"

text \<open>The two students that loaded and two buses, with the indices as OR-Tools numbers
  them for three nodes and two vehicles: 0 is the start of bus 0, 1 and 2 are the
  students, 3 is the start of bus 1, 4 and 5 are the two ends. Bus 0 visits both students
  and bus 1 stays at the school.\<close>

definition example_data :: "string data_model" where
  "example_data =
     \<lparr>distance_matrix = [[0, 5, 7], [5, 0, 3], [7, 3, 0]],
      demands = [0, 1, 1],
      vehicle_capacities = [2, 2],
      num_vehicles = 2,
      depot = 0,
      coords = [(''76.3647'', ''30.3565''), (''76.36'', ''30.35''), (''76.38'', ''30.34'')],
      students = example_students,
      buses = [\<lparr>bus_id = 1, bus_capacity = 2\<rparr>, \<lparr>bus_id = 2, bus_capacity = 2\<rparr>]\<rparr>"

definition example_node :: "nat \<Rightarrow> nat" where
  "example_node i = (if i = 1 then 1 else if i = 2 then 2 else 0)"

definition example_routing :: "vrp_model \<Rightarrow> routing" where
  "example_routing m =
     \<lparr>Start = (\<lambda>v. if v = 0 then 0 else 3),
      IsEnd = (\<lambda>i. 4 \<le> i),
      IndexToNode = example_node,
      GetArcCostForVehicle = (\<lambda>i j v. model_arc_costs m ! example_node i ! example_node j)\<rparr>"

definition example_solution :: assignment where
  "example_solution i = (if i = 0 then 1 else if i = 1 then 2 else if i = 2 then 4 else 5)"

text \<open>The surroundings of a run of the entry point: the students above, a table of
  buses, the provider that returns the matrix above, and a solver with a fixed answer.\<close>

definition example_one_bus :: "row list" where
  "example_one_bus = [[''id'' \<mapsto> Some ''1'', ''capacity'' \<mapsto> Some ''1'']]"

definition example_two_buses :: "row list" where
  "example_two_buses =
     [[''id'' \<mapsto> Some ''1'', ''capacity'' \<mapsto> Some ''1''],
      [''id'' \<mapsto> Some ''2'', ''capacity'' \<mapsto> Some ''1'']]"

definition example_env :: "row list \<Rightarrow> assignment option \<Rightarrow> string env" where
  "example_env bus_rows answer =
     \<lparr>env_open_csv = (\<lambda>f. if f = ''buses.csv'' then Some bus_rows else Some example_rows),
      env_int = example_int,
      env_float = example_float,
      env_openrouteservice = (\<lambda>_ _. Inr (Some example_matrix)),
      env_routing = (\<lambda>m. Inr (example_routing m)),
      env_solve = (\<lambda>_ _. Inr answer)\<rparr>"

section \<open>Loading and the matrix: lemmas\<close>

lemma list_all2_setD1: "list_all2 P xs ys \<Longrightarrow> x \<in> set xs \<Longrightarrow> \<exists>y \<in> set ys. P x y"
  by (induction rule: list_all2_induct) auto

lemma load_row_Skipped:
  "load_row pint pfl r = Inr (Skipped n) \<Longrightarrow>
     unresolved r \<and> (\<exists>v. r ''name'' = Some v \<and> n = py_str v)"
  by (auto simp: load_row_def skip_row_def keep_row_def getitem_def unresolved_def
      empty_cell_def falsy_def warned_for_def
      split: option.splits if_splits sum.splits)

lemma load_row_Kept:
  "load_row pint pfl r = Inr (Kept s) \<Longrightarrow> \<not> unresolved r \<and> loaded_from pint pfl s r"
  by (auto simp: load_row_def skip_row_def keep_row_def getitem_def unresolved_def loaded_from_def
      empty_cell_def falsy_def convert_def read_cell_def
      split: option.splits if_splits sum.splits)

lemma load_students_rows_Inr:
  "load_students_rows pint pfl rows = (ws, Inr ss) \<Longrightarrow>
     list_all2 (loaded_from pint pfl) ss (filter (\<lambda>r. \<not> unresolved r) rows) \<and>
     list_all2 warned_for ws (filter unresolved rows)"
proof (induction rows arbitrary: ws ss)
  case Nil
  then show ?case by simp
next
  case (Cons r rows)
  show ?case
  proof (cases "load_row pint pfl r")
    case (Inl e)
    with Cons.prems show ?thesis by simp
  next
    case (Inr l)
    show ?thesis
    proof (cases l)
      case (Skipped n)
      with Inr Cons.prems obtain ws' where ws': "ws = SkippingStudent n # ws'"
        "load_students_rows pint pfl rows = (ws', Inr ss)"
        by (auto split: prod.splits)
      from Inr Skipped have "unresolved r" "\<exists>v. r ''name'' = Some v \<and> n = py_str v"
        using load_row_Skipped by blast+
      with Cons.IH[OF ws'(2)] ws'(1) show ?thesis
        by (auto simp: warned_for_def)
    next
      case (Kept s)
      with Inr Cons.prems obtain ss' where ss': "ss = s # ss'"
        "load_students_rows pint pfl rows = (ws, Inr ss')"
        by (auto split: prod.splits sum.splits)
      from Inr Kept have "\<not> unresolved r" "loaded_from pint pfl s r"
        using load_row_Kept by blast+
      with Cons.IH[OF ss'(2)] ss'(1) show ?thesis
        by simp
    qed
  qed
qed

lemma create_data_model_Inr:
  "create_data_model pint ors ss bs school key = Inr d \<Longrightarrow>
     demands d = 0 # replicate (length ss) 1 \<and>
     coords d = school # map (\<lambda>s. (student_lon s, student_lat s)) ss \<and>
     students d = ss \<and> buses d = bs \<and> num_vehicles d = length bs \<and> depot d = 0 \<and>
     vehicle_capacities d = map bus_capacity bs"
  by (auto simp: create_data_model_def model_coords_def Let_def split: sum.splits)

lemma to_int_rejects: "isl (to_int pint d) = int_rejects pint d"
  by (cases d) (auto simp: to_int_def int_rejects_def split: option.splits)

lemma int_row_sound:
  "int_row pint ds = Inr js \<Longrightarrow> list_all2 (\<lambda>d i. to_int pint d = Inr i) ds js"
  by (induction ds arbitrary: js) (auto split: sum.splits)

lemma int_row_complete:
  "list_all2 (\<lambda>d i. to_int pint d = Inr i) ds js \<Longrightarrow> int_row pint ds = Inr js"
  by (induction rule: list_all2_induct) auto

lemma int_rows_sound:
  "int_rows pint rs = Inr m \<Longrightarrow> list_all2 (list_all2 (\<lambda>d i. to_int pint d = Inr i)) rs m"
  by (induction rs arbitrary: m) (auto split: sum.splits dest: int_row_sound)

lemma int_rows_complete:
  "list_all2 (list_all2 (\<lambda>d i. to_int pint d = Inr i)) rs m \<Longrightarrow> int_rows pint rs = Inr m"
  by (induction rule: list_all2_induct) (auto simp: int_row_complete)

lemma int_row_rejects:
  "d \<in> set ds \<Longrightarrow> int_rejects pint d \<Longrightarrow> \<exists>e. int_row pint ds = Inl e"
proof (induction ds)
  case Nil
  then show ?case by simp
next
  case (Cons a ds)
  then show ?case
    using to_int_rejects[of pint a] by (auto split: sum.splits)
qed

lemma int_rows_rejects:
  "row \<in> set rs \<Longrightarrow> d \<in> set row \<Longrightarrow> int_rejects pint d \<Longrightarrow> \<exists>e. int_rows pint rs = Inl e"
proof (induction rs)
  case Nil
  then show ?case by simp
next
  case (Cons a rs)
  then show ?case
    using int_row_rejects[of d a pint] by (auto split: sum.splits)
qed

section \<open>The reporter: lemmas\<close>

lemma route_distance_single: "route_distance R v [j] = 0"
  by (simp add: route_distance_def)

lemma route_distance_Cons:
  "route_distance R v (j # k # p) = GetArcCostForVehicle R j k v + route_distance R v (k # p)"
  by (simp add: route_distance_def)

lemma append_student_in_range:
  "node \<le> length studs \<Longrightarrow> \<exists>rs'. append_student studs node rs = Inr rs'"
  by (auto simp: append_student_def item_def)

lemma route_loop_of_route:
  "is_route R solution i p \<Longrightarrow> \<forall>j \<in> set p. IndexToNode R j \<le> length studs \<Longrightarrow>
     \<exists>rs'. route_loop studs R solution v i rs rn rd =
        Some (Inr (rs', rn @ map (IndexToNode R) (butlast p), rd + route_distance R v p))"
proof (induction R solution i p arbitrary: rs rn rd rule: is_route.induct)
  case (1 R solution i)
  then show ?case by simp
next
  case (2 R solution i j)
  then show ?case
    by (subst route_loop.simps) (simp add: route_distance_single)
next
  case (3 R solution i j k p)
  from "3.prems" have step: "j = i" "\<not> IsEnd R i" "k = solution i"
    and rest: "is_route R solution k (k # p)"
    and rng: "IndexToNode R i \<le> length studs" "\<forall>j \<in> set (k # p). IndexToNode R j \<le> length studs"
    by auto
  from rng(1) obtain rs1 where rs1: "append_student studs (IndexToNode R i) rs = Inr rs1"
    using append_student_in_range by blast
  from "3.IH"[OF rest rng(2), of rs1 "rn @ [IndexToNode R i]"
      "rd + GetArcCostForVehicle R i (solution i) v"]
  obtain rs' where
    "route_loop studs R solution v k rs1 (rn @ [IndexToNode R i])
        (rd + GetArcCostForVehicle R i (solution i) v) =
      Some (Inr (rs', (rn @ [IndexToNode R i]) @ map (IndexToNode R) (butlast (k # p)),
                 (rd + GetArcCostForVehicle R i (solution i) v) + route_distance R v (k # p)))"
    by blast
  with step rs1 show ?case
    by (subst route_loop.simps) (simp add: route_distance_Cons)
qed

lemma route_of_route_loop:
  assumes run: "route_loop studs R solution v i rs rn rd = Some y"
  shows "\<forall>rs' rn' rd'. y = Inr (rs', rn', rd') \<longrightarrow>
        (\<exists>p. is_route R solution i p \<and> rn' = rn @ map (IndexToNode R) (butlast p) \<and>
             rd' = rd + route_distance R v p)"
proof (rule route_loop.raw_induct[where P = "\<lambda>studs R solution v i rs rn rd y.
      \<forall>rs' rn' rd'. y = Inr (rs', rn', rd') \<longrightarrow>
        (\<exists>p. is_route R solution i p \<and> rn' = rn @ map (IndexToNode R) (butlast p) \<and>
             rd' = rd + route_distance R v p)", OF _ run])
  fix route_loop' :: "'a student list \<Rightarrow> routing \<Rightarrow> assignment \<Rightarrow> nat \<Rightarrow> nat \<Rightarrow> string option list
      \<Rightarrow> nat list \<Rightarrow> int \<Rightarrow> (py_error + string option list \<times> nat list \<times> int) option"
  fix studs R solution v index route_students route_nodes route_dist y
  assume IH: "\<And>studs R solution v index route_students route_nodes route_dist y.
      route_loop' studs R solution v index route_students route_nodes route_dist = Some y \<Longrightarrow>
      \<forall>rs' rn' rd'. y = Inr (rs', rn', rd') \<longrightarrow>
        (\<exists>p. is_route R solution index p \<and>
             rn' = route_nodes @ map (IndexToNode R) (butlast p) \<and>
             rd' = route_dist + route_distance R v p)"
  assume body: "(if IsEnd R index then Some (Inr (route_students, route_nodes, route_dist))
      else case append_student studs (IndexToNode R index) route_students of
             Inl e \<Rightarrow> Some (Inl e)
           | Inr route_students' \<Rightarrow>
               route_loop' studs R solution v (solution index) route_students'
                 (route_nodes @ [IndexToNode R index])
                 (route_dist + GetArcCostForVehicle R index (solution index) v)) = Some y"
  show "\<forall>rs' rn' rd'. y = Inr (rs', rn', rd') \<longrightarrow>
        (\<exists>p. is_route R solution index p \<and>
             rn' = route_nodes @ map (IndexToNode R) (butlast p) \<and>
             rd' = route_dist + route_distance R v p)"
  proof (cases "IsEnd R index")
    case True
    with body have "y = Inr (route_students, route_nodes, route_dist)" by simp
    moreover from True have "is_route R solution index [index]" by simp
    ultimately show ?thesis
      by (intro allI impI exI[of _ "[index]"]) (simp add: route_distance_single)
  next
    case False
    show ?thesis
    proof (intro allI impI)
      fix rs' rn' rd'
      assume y: "y = Inr (rs', rn', rd')"
      from body False y obtain rs1 where
        call: "route_loop' studs R solution v (solution index) rs1
                 (route_nodes @ [IndexToNode R index])
                 (route_dist + GetArcCostForVehicle R index (solution index) v) = Some y"
        by (cases "append_student studs (IndexToNode R index) route_students") auto
      from IH[OF call] y obtain p where p: "is_route R solution (solution index) p"
        "rn' = (route_nodes @ [IndexToNode R index]) @ map (IndexToNode R) (butlast p)"
        "rd' = (route_dist + GetArcCostForVehicle R index (solution index) v) + route_distance R v p"
        by blast
      from p(1) obtain q where q: "p = solution index # q"
        by (cases p) (auto elim: is_route.elims)
      with p(1) False have "is_route R solution index (index # p)" by simp
      moreover from q p(2) have "rn' = route_nodes @ map (IndexToNode R) (butlast (index # p))"
        by simp
      moreover from q p(3) have "rd' = route_dist + route_distance R v (index # p)"
        by (simp add: route_distance_Cons)
      ultimately show "\<exists>p. is_route R solution index p \<and>
          rn' = route_nodes @ map (IndexToNode R) (butlast p) \<and>
          rd' = route_dist + route_distance R v p"
        by blast
    qed
  qed
qed

lemma route_coords_in_range:
  "\<forall>n \<in> set ns. n < length cs \<Longrightarrow> \<exists>xs. route_coords cs ns = Inr xs"
  by (induction ns) (auto simp: item_def)

lemma report_route_in_range:
  "v < length (buses data) \<Longrightarrow> \<forall>n \<in> set ns. n < length (coords data) \<Longrightarrow>
     \<exists>ls. report_route data v rs ns rd = (ls, None)"
  using route_coords_in_range[of ns "coords data"]
  by (auto simp: report_route_def item_def)

lemma vehicles_loop_sound:
  "vehicles_loop data R solution vs t = Some (ls, Inr t') \<Longrightarrow>
     \<exists>ps. list_all2 (\<lambda>v p. is_route R solution (Start R v) p) vs ps \<and>
          t' = t + sum_list (map2 (route_distance R) vs ps)"
proof (induction vs arbitrary: t ls)
  case Nil
  then show ?case by simp
next
  case (Cons v vs)
  from Cons.prems obtain rs rn rd where
    run: "route_loop (students data) R solution v (Start R v) [] [] 0 = Some (Inr (rs, rn, rd))"
    by (auto split: option.splits sum.splits)
  with Cons.prems obtain ls' where
    rest: "vehicles_loop data R solution vs (t + rd) = Some (ls', Inr t')"
    by (auto split: option.splits sum.splits prod.splits)
  from route_of_route_loop[OF run] obtain p where
    p: "is_route R solution (Start R v) p" "rd = route_distance R v p"
    by auto
  from Cons.IH[OF rest] obtain ps where
    ps: "list_all2 (\<lambda>v p. is_route R solution (Start R v) p) vs ps"
    "t' = t + rd + sum_list (map2 (route_distance R) vs ps)"
    by blast
  from p ps show ?case
    by (intro exI[of _ "p # ps"]) simp
qed

lemma vehicles_loop_complete:
  "list_all2 (\<lambda>v p. is_route R solution (Start R v) p \<and> nodes_in_range data R p) vs ps \<Longrightarrow>
   \<forall>v \<in> set vs. v < length (buses data) \<Longrightarrow>
     \<exists>ls. vehicles_loop data R solution vs t =
        Some (ls, Inr (t + sum_list (map2 (route_distance R) vs ps)))"
proof (induction vs ps arbitrary: t rule: list_all2_induct)
  case Nil
  then show ?case by simp
next
  case (Cons v vs p ps)
  from Cons.hyps(1) have route: "is_route R solution (Start R v) p"
    and rng: "nodes_in_range data R p" by auto
  from rng have "\<forall>j \<in> set p. IndexToNode R j \<le> length (students data)"
    by (simp add: nodes_in_range_def)
  from route_loop_of_route[OF route this, of v "[]" "[]" 0] obtain rs where
    run: "route_loop (students data) R solution v (Start R v) [] [] 0 =
            Some (Inr (rs, map (IndexToNode R) (butlast p), route_distance R v p))"
    by auto
  from route have "p \<noteq> []" by (cases p) auto
  with rng have "0 < length (coords data)"
    by (cases p) (auto simp: nodes_in_range_def)
  moreover from rng have "\<forall>n \<in> set (map (IndexToNode R) (butlast p)). n < length (coords data)"
    by (auto simp: nodes_in_range_def dest: in_set_butlastD)
  ultimately have "\<forall>n \<in> set (map (IndexToNode R) (butlast p) @ [0]). n < length (coords data)"
    by auto
  moreover from Cons.prems have "v < length (buses data)" by simp
  ultimately obtain ls1 where
    rep: "report_route data v rs (map (IndexToNode R) (butlast p) @ [0]) (route_distance R v p)
            = (ls1, None)"
    using report_route_in_range by blast
  from Cons.prems have "\<forall>v \<in> set vs. v < length (buses data)" by simp
  from Cons.IH[OF this, of "t + route_distance R v p"] obtain ls2 where
    "vehicles_loop data R solution vs (t + route_distance R v p) =
       Some (ls2, Inr (t + route_distance R v p + sum_list (map2 (route_distance R) vs ps)))"
    by blast
  with run rep show ?case
    by (simp add: add.assoc)
qed

lemma route_loop_students:
  assumes run: "route_loop studs R solution v i rs rn rd = Some y"
  shows "\<forall>rs' rn' rd'. y = Inr (rs', rn', rd') \<longrightarrow>
           set rs' \<subseteq> set rs \<union> student_name ` set studs"
proof (rule route_loop.raw_induct[where P = "\<lambda>studs R solution v i rs rn rd y.
      \<forall>rs' rn' rd'. y = Inr (rs', rn', rd') \<longrightarrow>
        set rs' \<subseteq> set rs \<union> student_name ` set studs", OF _ run])
  fix route_loop' :: "'a student list \<Rightarrow> routing \<Rightarrow> assignment \<Rightarrow> nat \<Rightarrow> nat \<Rightarrow> string option list
      \<Rightarrow> nat list \<Rightarrow> int \<Rightarrow> (py_error + string option list \<times> nat list \<times> int) option"
  fix studs R solution v index route_students route_nodes route_dist y
  assume IH: "\<And>studs R solution v index route_students route_nodes route_dist y.
      route_loop' studs R solution v index route_students route_nodes route_dist = Some y \<Longrightarrow>
      \<forall>rs' rn' rd'. y = Inr (rs', rn', rd') \<longrightarrow>
        set rs' \<subseteq> set route_students \<union> student_name ` set studs"
  assume body: "(if IsEnd R index then Some (Inr (route_students, route_nodes, route_dist))
      else case append_student studs (IndexToNode R index) route_students of
             Inl e \<Rightarrow> Some (Inl e)
           | Inr route_students' \<Rightarrow>
               route_loop' studs R solution v (solution index) route_students'
                 (route_nodes @ [IndexToNode R index])
                 (route_dist + GetArcCostForVehicle R index (solution index) v)) = Some y"
  show "\<forall>rs' rn' rd'. y = Inr (rs', rn', rd') \<longrightarrow>
        set rs' \<subseteq> set route_students \<union> student_name ` set studs"
  proof (cases "IsEnd R index")
    case True
    with body show ?thesis by auto
  next
    case False
    show ?thesis
    proof (intro allI impI)
      fix rs' rn' rd'
      assume y: "y = Inr (rs', rn', rd')"
      from body False y obtain rs1 where
        rs1: "append_student studs (IndexToNode R index) route_students = Inr rs1" and
        call: "route_loop' studs R solution v (solution index) rs1
                 (route_nodes @ [IndexToNode R index])
                 (route_dist + GetArcCostForVehicle R index (solution index) v) = Some y"
        by (cases "append_student studs (IndexToNode R index) route_students") auto
      from rs1 have "set rs1 \<subseteq> set route_students \<union> student_name ` set studs"
        by (auto simp: append_student_def item_def split: if_splits)
      moreover from IH[OF call] y have "set rs' \<subseteq> set rs1 \<union> student_name ` set studs"
        by blast
      ultimately show "set rs' \<subseteq> set route_students \<union> student_name ` set studs"
        by blast
    qed
  qed
qed

lemma report_route_students:
  "AssignedStudents ns \<in> set (fst (report_route data v rs rn rd)) \<Longrightarrow> ns = rs"
  by (auto simp: report_route_def split: if_splits sum.splits)

lemma vehicles_loop_students:
  "vehicles_loop data R solution vs t = Some (ls, res) \<Longrightarrow> AssignedStudents ns \<in> set ls \<Longrightarrow>
     set ns \<subseteq> student_name ` set (students data)"
proof (induction vs arbitrary: t ls res)
  case Nil
  then show ?case by simp
next
  case (Cons v vs)
  show ?case
  proof (cases "route_loop (students data) R solution v (Start R v) [] [] 0")
    case None
    with Cons.prems show ?thesis by simp
  next
    case (Some y)
    show ?thesis
    proof (cases y)
      case (Inl e)
      with Some Cons.prems show ?thesis by simp
    next
      case (Inr triple)
      obtain rs rn rd where triple: "triple = (rs, rn, rd)"
        by (cases triple)
      from route_loop_students[OF Some] Inr triple
      have rs: "set rs \<subseteq> student_name ` set (students data)" by simp
      obtain l1 e1 where rep: "report_route data v rs (rn @ [0]) rd = (l1, e1)"
        by (cases "report_route data v rs (rn @ [0]) rd")
      have l1: "set ms \<subseteq> student_name ` set (students data)"
        if "AssignedStudents ms \<in> set l1" for ms
        using report_route_students[of ms data v rs "rn @ [0]" rd] that rep rs by simp
      show ?thesis
      proof (cases e1)
        case (Some e)
        with Cons.prems \<open>route_loop _ _ _ _ _ _ _ _ = Some y\<close> Inr triple rep l1
        show ?thesis by auto
      next
        case None
        with Cons.prems \<open>route_loop _ _ _ _ _ _ _ _ = Some y\<close> Inr triple rep
        obtain l2 where rest: "vehicles_loop data R solution vs (t + rd) = Some (l2, res)"
          and ls: "ls = l1 @ l2"
          by (auto split: option.splits)
        from Cons.prems(2) ls have "AssignedStudents ns \<in> set l1 \<or> AssignedStudents ns \<in> set l2"
          by simp
        then show ?thesis
          using l1 Cons.IH[OF rest] by blast
      qed
    qed
  qed
qed

lemma print_solution_students:
  "print_solution data R solution = Some (ls, err) \<Longrightarrow> AssignedStudents ns \<in> set ls \<Longrightarrow>
     set ns \<subseteq> student_name ` set (students data)"
  by (auto simp: print_solution_def split: option.splits sum.splits prod.splits
      dest: vehicles_loop_students)

section \<open>Geocoding: lemmas\<close>

lemma keys_updated:
  "set (map fst (AList.update (Some ''lat'') lat (AList.update (Some ''lon'') lon r))) =
   {Some ''lat'', Some ''lon''} \<union> fst ` set r"
  unfolding set_map dom_update by blast

lemma writerow_updated:
  "writerow fns (AList.update (Some ''lat'') lat (AList.update (Some ''lon'') lon r)) =
   (if writable fns r
    then Inr (map (\<lambda>k. if k = ''lat'' then lat else if k = ''lon'' then lon
                        else (case map_of r (Some k) of None \<Rightarrow> Text [] | Some c \<Rightarrow> c)) fns)
    else Inl (ValueError ''dict contains fields not in fieldnames''))"
proof -
  let ?r' = "AList.update (Some ''lat'') lat (AList.update (Some ''lon'') lon r)"
  have "list_all (\<lambda>k. k \<in> Some ` set fns) (map fst ?r') = writable fns r"
    unfolding list_all_iff keys_updated writable_def by auto
  moreover have "\<And>k. (case map_of ?r' (Some k) of None \<Rightarrow> Text [] | Some c \<Rightarrow> c) =
      (if k = ''lat'' then lat else if k = ''lon'' then lon
       else (case map_of r (Some k) of None \<Rightarrow> Text [] | Some c \<Rightarrow> c))"
    by (simp add: update_conv')
  ultimately show ?thesis
    by (simp add: writerow_def)
qed

lemma geocode_row_eq:
  "geocode_row client fns r =
     (case map_of r (Some ''address'') of
        None \<Rightarrow> ([], [], Inl (KeyError ''address''))
      | Some addr \<Rightarrow>
          ([addr],
           (case lookup_coordinates client addr of Inl e \<Rightarrow> [GeocodingFailed addr e] | Inr _ \<Rightarrow> []),
           (if writable fns r
            then Inr (map (\<lambda>k. if k = ''lat'' then snd (assigned client addr)
                                else if k = ''lon'' then fst (assigned client addr)
                                else (case map_of r (Some k) of None \<Rightarrow> Text [] | Some c \<Rightarrow> c)) fns)
            else Inl (ValueError ''dict contains fields not in fieldnames''))))"
  by (auto simp: geocode_row_def writerow_updated assigned_def split: option.splits sum.splits)

lemma assigned_failed: "geocoding_failed client addr \<Longrightarrow> assigned client addr = (Text [], Text [])"
  by (auto simp: geocoding_failed_def assigned_def lookup_coordinates_def item_def
      split: sum.splits option.splits list.splits)

lemma assigned_found:
  "client addr = Inr (Some (Some cs # fs)) \<Longrightarrow> 2 \<le> length cs \<Longrightarrow>
     assigned client addr = (Coord (cs ! 0), Coord (cs ! 1))"
  by (auto simp: assigned_def lookup_coordinates_def item_def)

lemma geocode_rows_shape:
  "(case geocode_rows client fns rows of (w, q, p, e) \<Rightarrow> (length w, q, e)) =
   (case geocode_rows client' fns rows of (w, q, p, e) \<Rightarrow> (length w, q, e))"
proof (induction rows)
  case Nil
  then show ?case by simp
next
  case (Cons r rows)
  then show ?case
    by (cases "map_of r (Some ''address'')")
       (auto simp: geocode_row_eq split: prod.splits)
qed

lemma addresses_Cons:
  "addresses (r # rows) =
     (case map_of r (Some ''address'') of None \<Rightarrow> addresses rows | Some a \<Rightarrow> a # addresses rows)"
  by (simp add: addresses_def List.map_filter_simps split: option.splits)

lemma geocode_rows_all:
  assumes "\<forall>r \<in> set rows. Some ''address'' \<in> fst ` set r \<and> writable fns r"
  shows "\<exists>p. geocode_rows client fns rows =
          (map (\<lambda>r. map (\<lambda>k. if k = ''lat'' then snd (assigned client (the (map_of r (Some ''address''))))
                              else if k = ''lon'' then fst (assigned client (the (map_of r (Some ''address''))))
                              else (case map_of r (Some k) of None \<Rightarrow> Text [] | Some c \<Rightarrow> c)) fns) rows,
           addresses rows, p, None) \<and>
         length (addresses rows) = length rows"
  using assms
proof (induction rows)
  case Nil
  then show ?case by (simp add: addresses_def List.map_filter_simps)
next
  case (Cons r rows)
  from Cons.prems have "Some ''address'' \<in> fst ` set r" and w: "writable fns r" by simp_all
  then obtain a where a: "map_of r (Some ''address'') = Some a"
    by (metis domD dom_map_of_conv_image_fst)
  from Cons.prems have "\<forall>r \<in> set rows. Some ''address'' \<in> fst ` set r \<and> writable fns r" by simp
  from Cons.IH[OF this] obtain p where
    "geocode_rows client fns rows =
          (map (\<lambda>r. map (\<lambda>k. if k = ''lat'' then snd (assigned client (the (map_of r (Some ''address''))))
                              else if k = ''lon'' then fst (assigned client (the (map_of r (Some ''address''))))
                              else (case map_of r (Some k) of None \<Rightarrow> Text [] | Some c \<Rightarrow> c)) fns) rows,
           addresses rows, p, None)" and "length (addresses rows) = length rows"
    by blast
  with a w show ?case
    by (simp add: geocode_row_eq addresses_Cons)
qed

lemma writable_header:
  "fst ` set r \<subseteq> Some ` (set header \<union> {''lat'', ''lon''}) \<Longrightarrow>
     writable (header @ [''lat'', ''lon'']) r"
  by (auto simp: writable_def)

section \<open>The reader: lemmas\<close>

lemma map_upds_append:
  "length xs = length ys \<Longrightarrow> m(xs @ us [\<mapsto>] ys @ vs) = (m(xs [\<mapsto>] ys))(us [\<mapsto>] vs)"
  by (induction xs ys arbitrary: m rule: list_induct2) simp_all

lemma map_upds_distinct:
  "length ks = length vs \<Longrightarrow> distinct ks \<Longrightarrow> m(ks [\<mapsto>] vs) = m ++ map_of (zip ks vs)"
proof (induction ks vs arbitrary: m rule: list_induct2)
  case Nil
  then show ?case by simp
next
  case (Cons k ks v vs)
  then have "map_of (zip ks vs) k = None" by simp
  with Cons show ?case
    by (auto simp: fun_eq_iff map_add_def split: option.splits)
qed

lemma map_of_zip_Some:
  "map_of (zip (map Some ks) vs) (Some k) = map_of (zip ks vs) k"
  by (induction ks arbitrary: vs) (auto simp: zip_Cons1 split: list.splits)

lemma fold_update_NoneCell:
  "fold (\<lambda>key. AList.update (Some key) NoneCell) ks d =
     AList.updates (map Some ks) (replicate (length ks) NoneCell) d"
  by (induction ks arbitrary: d) simp_all

lemma length_original_cells:
  "length row \<le> length header \<Longrightarrow> length (original_cells header row) = length header"
  by (simp add: original_cells_def)

lemma dict_of_row_upds:
  assumes "length row \<le> length header"
  shows "map_of (dict_of_row header row) =
           Map.empty(map Some header [\<mapsto>] original_cells header row)"
proof (cases "length row = length header")
  case True
  then show ?thesis
    by (simp add: dict_of_row_def original_cells_def updates_conv')
next
  case False
  with assms have less: "length row < length header" by simp
  have h: "map Some header = map Some (take (length row) header) @ map Some (drop (length row) header)"
    by (simp flip: map_append)
  have e: "Map.empty(map Some header [\<mapsto>]
              map Text row @ replicate (length header - length row) NoneCell) =
        (Map.empty(map Some (take (length row) header) [\<mapsto>] map Text row))
          (map Some (drop (length row) header) [\<mapsto>] replicate (length header - length row) NoneCell)"
    using map_upds_append[of "map Some (take (length row) header)" "map Text row" Map.empty
        "map Some (drop (length row) header)" "replicate (length header - length row) NoneCell"] less
    by (simp flip: map_append)
  have "map_of (dict_of_row header row) =
        (Map.empty(map Some header [\<mapsto>] map Text row))
          (map Some (drop (length row) header) [\<mapsto>] replicate (length header - length row) NoneCell)"
    using less by (simp add: dict_of_row_def Let_def fold_update_NoneCell updates_conv')
  also have "Map.empty(map Some header [\<mapsto>] map Text row) =
      Map.empty(map Some (take (length row) header) [\<mapsto>] map Text row)"
    by (subst h, rule fun_upds_append_drop) (use less in simp)
  also have "(Map.empty(map Some (take (length row) header) [\<mapsto>] map Text row))
          (map Some (drop (length row) header) [\<mapsto>] replicate (length header - length row) NoneCell) =
        Map.empty(map Some header [\<mapsto>] original_cells header row)"
    unfolding original_cells_def by (rule e[symmetric])
  finally show ?thesis .
qed

lemma dict_of_row_keys:
  assumes "length row \<le> length header"
  shows "fst ` set (dict_of_row header row :: 'c csv_row) = Some ` set header"
proof -
  have "fst ` set (dict_of_row header row :: 'c csv_row) =
      dom (map_of (dict_of_row header row :: 'c csv_row))"
    by (rule dom_map_of_conv_image_fst[symmetric])
  also have "\<dots> = Some ` set header"
    unfolding dict_of_row_upds[OF assms] dom_map_upds
    using assms by (simp add: length_original_cells)
  finally show ?thesis .
qed

lemma dict_of_row_lookup:
  assumes "length row \<le> length header" and "distinct header"
  shows "map_of (dict_of_row header row) (Some k) =
           map_of (zip header (original_cells header row)) k"
proof -
  have "distinct (map Some header)"
    using assms(2) by (simp add: distinct_map)
  with assms(1) have "Map.empty(map Some header [\<mapsto>] original_cells header row) =
      map_of (zip (map Some header) (original_cells header row))"
    by (simp add: map_upds_distinct length_original_cells)
  with dict_of_row_upds[OF assms(1)]
  have "map_of (dict_of_row header row) =
      map_of (zip (map Some header) (original_cells header row))"
    by (rule trans)
  from fun_cong[OF this, of "Some k"] show ?thesis
    by (simp only: map_of_zip_Some)
qed

lemma map_lookup_zip:
  assumes "length ks = length vs" and "distinct ks"
  shows "map (\<lambda>k. case map_of (zip ks vs) k of None \<Rightarrow> d | Some c \<Rightarrow> c) ks = vs"
  using assms by (intro nth_equalityI) (simp_all add: map_of_zip_nth)

lemma dict_of_row_written:
  assumes "length row \<le> length header" and "distinct header"
    and "''lat'' \<notin> set header" and "''lon'' \<notin> set header"
  shows "map (\<lambda>k. if k = ''lat'' then la else if k = ''lon'' then lo
                   else (case map_of (dict_of_row header row) (Some k) of
                           None \<Rightarrow> Text [] | Some c \<Rightarrow> c))
           (header @ [''lat'', ''lon'']) =
         original_cells header row @ [la, lo]"
proof -
  have "map (\<lambda>k. if k = ''lat'' then la else if k = ''lon'' then lo
                   else (case map_of (dict_of_row header row) (Some k) of
                           None \<Rightarrow> Text [] | Some c \<Rightarrow> c)) header =
        map (\<lambda>k. case map_of (zip header (original_cells header row)) k of
                   None \<Rightarrow> Text [] | Some c \<Rightarrow> c) header"
    using assms by (intro map_cong) (auto simp: dict_of_row_lookup)
  also have "\<dots> = original_cells header row"
    using assms(1,2) by (intro map_lookup_zip) (simp_all add: length_original_cells)
  finally show ?thesis by simp
qed

section \<open>The concrete inputs, evaluated\<close>

lemma example_asha_loaded:
  "load_row example_int example_float example_asha = Inr (Kept (example_students ! 0))"
  by (simp add: example_asha_def example_students_def load_row_def getitem_def falsy_def
        keep_row_def convert_def example_int_def example_float_def)

lemma example_bir_skipped:
  "load_row example_int example_float example_bir = Inr (Skipped ''Bir'')"
  by (simp add: example_bir_def load_row_def getitem_def skip_row_def falsy_def py_str_def)

lemma example_dev_skipped:
  "load_row example_int example_float example_dev = Inr (Skipped ''Dev'')"
  by (simp add: example_dev_def load_row_def getitem_def skip_row_def falsy_def py_str_def)

lemma example_chand_loaded:
  "load_row example_int example_float example_chand = Inr (Kept (example_students ! 1))"
  by (simp add: example_chand_def example_students_def load_row_def getitem_def falsy_def
        keep_row_def convert_def example_int_def example_float_def)

lemma example_rows_loaded:
  "load_students (\<lambda>_. Some example_rows) example_int example_float ''students.csv'' =
     ([SkippingStudent ''Bir'', SkippingStudent ''Dev''], Inr example_students)"
  by (simp add: load_students_def example_rows_def example_asha_loaded example_bir_skipped
      example_chand_loaded example_dev_skipped) (simp add: example_students_def)

lemma example_unresolved:
  "\<not> unresolved example_asha" "unresolved example_bir" "\<not> unresolved example_chand"
  "unresolved example_dev"
  by (simp_all add: unresolved_def empty_cell_def example_asha_def example_bir_def
      example_chand_def example_dev_def)

lemma example_matrix_built:
  "build_distance_matrix_ors example_int (\<lambda>_. Inr (Some example_matrix)) cs =
     Inr [[0, 5, 7], [5, 0, 3], [7, 3, 0]]"
  by (simp add: build_distance_matrix_ors_def to_int_def example_matrix_def)

section \<open>The entry point: lemmas\<close>

lemma optimize_with_ors_built:
  assumes "load_students (env_open_csv env) (env_int env) (env_float env) sc = (ws, Inr ss)"
    and "load_buses (env_open_csv env) (env_int env) bc = Inr bs"
    and "create_data_model (env_int env) (env_openrouteservice env) ss bs (lon, lat) key = Inr d"
    and "env_routing env (routing_model_of d) = Inr R"
  shows "optimize_with_ors env sc bc lat lon key =
     (case env_solve env (routing_model_of d) routing_search_parameters of
        Inl e \<Rightarrow>
          Some (map Print ws @
                [DistanceMatrix key (distance_matrix_request (model_coords (lon, lat) ss)),
                 Solve (routing_model_of d) routing_search_parameters], Some e)
      | Inr None \<Rightarrow>
          Some (map Print ws @
                [DistanceMatrix key (distance_matrix_request (model_coords (lon, lat) ss)),
                 Solve (routing_model_of d) routing_search_parameters,
                 Print (Message ''No solution found.'')], None)
      | Inr (Some solution) \<Rightarrow>
          (case print_solution d R solution of
             None \<Rightarrow> None
           | Some (ls, err) \<Rightarrow>
               Some (map Print ws @
                     [DistanceMatrix key (distance_matrix_request (model_coords (lon, lat) ss)),
                      Solve (routing_model_of d) routing_search_parameters] @ map Print ls, err)))"
  using assms by (simp add: optimize_with_ors_def Let_def)




lemma example_env_students:
  "load_students (env_open_csv (example_env bus_rows answer)) (env_int (example_env bus_rows answer))
     (env_float (example_env bus_rows answer)) ''students.csv'' =
     ([SkippingStudent ''Bir'', SkippingStudent ''Dev''], Inr example_students)"
  by (simp add: example_env_def load_students_def example_rows_def example_asha_loaded
      example_bir_skipped example_chand_loaded example_dev_skipped)
     (simp add: example_students_def)

lemma example_env_one_bus:
  "load_buses (env_open_csv (example_env example_one_bus answer))
     (env_int (example_env example_one_bus answer)) ''buses.csv'' =
     Inr [\<lparr>bus_id = 1, bus_capacity = 1\<rparr>]"
  by (simp add: example_env_def load_buses_def example_one_bus_def bus_of_row_def getitem_def convert_def
      example_int_def)

lemma example_env_two_buses:
  "load_buses (env_open_csv (example_env example_two_buses answer))
     (env_int (example_env example_two_buses answer)) ''buses.csv'' =
     Inr [\<lparr>bus_id = 1, bus_capacity = 1\<rparr>, \<lparr>bus_id = 2, bus_capacity = 1\<rparr>]"
  by (simp add: example_env_def load_buses_def example_two_buses_def bus_of_row_def getitem_def convert_def
      example_int_def)

lemma example_env_model:
  "create_data_model (env_int (example_env bus_rows answer))
     (env_openrouteservice (example_env bus_rows answer)) example_students bs school key =
   Inr \<lparr>distance_matrix = [[0, 5, 7], [5, 0, 3], [7, 3, 0]],
        demands = [0, 1, 1],
        vehicle_capacities = map bus_capacity bs,
        num_vehicles = length bs,
        depot = 0,
        coords = model_coords school example_students,
        students = example_students,
        buses = bs\<rparr>"
  by (simp add: example_env_def create_data_model_def example_matrix_built)
     (simp add: example_students_def)

lemma example_env_routing:
  "env_routing (example_env bus_rows answer) m = Inr (example_routing m)"
  by (simp add: example_env_def)

lemma example_env_solve:
  "env_solve (example_env bus_rows answer) m p = Inr answer"
  by (simp add: example_env_def)

lemma example_run_one_bus:
  "optimize_with_ors (example_env example_one_bus None) ''students.csv'' ''buses.csv'' lat lon key =
     Some ([Print (SkippingStudent ''Bir''), Print (SkippingStudent ''Dev''),
            DistanceMatrix key
              \<lparr>locations = [(lon, lat), (''76.36'', ''30.35''), (''76.38'', ''30.34'')],
               profile = ''driving-car'', metrics = [''distance''], units = ''m''\<rparr>,
            Solve
              \<lparr>model_num_nodes = 3, model_num_vehicles = 1, model_depot = 0,
               model_arc_costs = [[0, 5, 7], [5, 0, 3], [7, 3, 0]],
               model_demands = [0, 1, 1], model_slack_max = 0, model_capacities = [1],
               model_fix_start_cumul_to_zero = True, model_dimension = ''Capacity''\<rparr>
              \<lparr>first_solution = PATH_CHEAPEST_ARC, metaheuristic = GUIDED_LOCAL_SEARCH,
               time_limit_seconds = 10\<rparr>,
            Print (Message ''No solution found.'')], None)"
proof -
  show ?thesis
    unfolding optimize_with_ors_built[OF example_env_students example_env_one_bus example_env_model
        example_env_routing] example_env_solve
    by (simp add: routing_model_of_def distance_matrix_request_def model_coords_def
        example_students_def routing_search_parameters_def)
qed

lemma example_run_two_buses:
  "optimize_with_ors (example_env example_two_buses None) ''students.csv'' ''buses.csv'' lat lon key =
     Some ([Print (SkippingStudent ''Bir''), Print (SkippingStudent ''Dev''),
            DistanceMatrix key
              \<lparr>locations = [(lon, lat), (''76.36'', ''30.35''), (''76.38'', ''30.34'')],
               profile = ''driving-car'', metrics = [''distance''], units = ''m''\<rparr>,
            Solve
              \<lparr>model_num_nodes = 3, model_num_vehicles = 2, model_depot = 0,
               model_arc_costs = [[0, 5, 7], [5, 0, 3], [7, 3, 0]],
               model_demands = [0, 1, 1], model_slack_max = 0, model_capacities = [1, 1],
               model_fix_start_cumul_to_zero = True, model_dimension = ''Capacity''\<rparr>
              \<lparr>first_solution = PATH_CHEAPEST_ARC, metaheuristic = GUIDED_LOCAL_SEARCH,
               time_limit_seconds = 10\<rparr>,
            Print (Message ''No solution found.'')], None)"
proof -
  show ?thesis
    unfolding optimize_with_ors_built[OF example_env_students example_env_two_buses example_env_model
        example_env_routing] example_env_solve
    by (simp add: routing_model_of_def distance_matrix_request_def model_coords_def
        example_students_def routing_search_parameters_def)
qed

section \<open>The demand vector\<close>

text \<open>
  C9. For every list of loaded stops for which the data model is built, the demand vector
  has one entry for the depot and one for each stop: it is as long as the list of
  coordinates, its entry at the depot index 0 is 0, and every other entry is 1.
\<close>

theorem create_data_model_demands:
  assumes "create_data_model py_int ors ss bs school key = Inr d"
  shows "length (demands d) = 1 + length ss \<and>
         length (demands d) = length (coords d) \<and>
         demands d ! 0 = 0 \<and>
         (\<forall>i. 1 \<le> i \<and> i < length (demands d) \<longrightarrow> demands d ! i = 1)"
proof -
  from create_data_model_Inr[OF assms]
  have d: "demands d = 0 # replicate (length ss) 1"
    and c: "coords d = school # map (\<lambda>s. (student_lon s, student_lat s)) ss"
    by simp_all
  have "\<forall>i. 1 \<le> i \<and> i < length (demands d) \<longrightarrow> demands d ! i = 1"
  proof (intro allI impI)
    fix i assume "1 \<le> i \<and> i < length (demands d)"
    then obtain j where "i = Suc j" "j < length ss"
      by (cases i) (auto simp: d)
    then show "demands d ! i = 1" by (simp add: d)
  qed
  with d c show ?thesis by simp
qed

theorem create_data_model_demands_witness:
  "create_data_model (\<lambda>_. None)
      (\<lambda>_ _. Inr (Some [[IntNum 0, IntNum 4], [IntNum 4, IntNum 0]]))
      [\<lparr>student_id = 1, student_name = Some ''A'', student_lat = 30, student_lon = 76\<rparr>]
      [\<lparr>bus_id = 1, bus_capacity = 3\<rparr>] (76 :: int, 30) ''key''
    = Inr \<lparr>distance_matrix = [[0, 4], [4, 0]], demands = [0, 1], vehicle_capacities = [3],
           num_vehicles = 1, depot = 0, coords = [(76, 30), (76, 30)],
           students = [\<lparr>student_id = 1, student_name = Some ''A'', student_lat = 30, student_lon = 76\<rparr>],
           buses = [\<lparr>bus_id = 1, bus_capacity = 3\<rparr>]\<rparr> \<and>
   length [0, 1 :: int] = 1 + length [\<lparr>student_id = 1, student_name = Some ''A'', student_lat = 30 :: int, student_lon = 76\<rparr>] \<and>
   [0, 1 :: int] ! 0 = 0 \<and> [0, 1 :: int] ! 1 = 1"
proof -
  have h: "create_data_model (\<lambda>_. None)
      (\<lambda>_ _. Inr (Some [[IntNum 0, IntNum 4], [IntNum 4, IntNum 0]]))
      [\<lparr>student_id = 1, student_name = Some ''A'', student_lat = 30, student_lon = 76\<rparr>]
      [\<lparr>bus_id = 1, bus_capacity = 3\<rparr>] (76 :: int, 30) ''key''
    = Inr \<lparr>distance_matrix = [[0, 4], [4, 0]], demands = [0, 1], vehicle_capacities = [3],
           num_vehicles = 1, depot = 0, coords = [(76, 30), (76, 30)],
           students = [\<lparr>student_id = 1, student_name = Some ''A'', student_lat = 30, student_lon = 76\<rparr>],
           buses = [\<lparr>bus_id = 1, bus_capacity = 3\<rparr>]\<rparr>"
    by (simp add: create_data_model_def model_coords_def build_distance_matrix_ors_def
        distance_matrix_request_def to_int_def)
  from create_data_model_demands[OF h] h show ?thesis by simp
qed

section \<open>Records with unresolved coordinates\<close>

text \<open>
  C7. When the students load and the data model is built, the stops of the model are
  exactly the records whose latitude and longitude are both not empty, in their order
  and with their fields; a record whose latitude or longitude is empty gives no stop, no
  coordinate (node) and no demand, and one warning naming it is printed for each. Every
  name that a report of any solution of the model prints among the students assigned to
  a bus is the name of a record with both coordinates.
\<close>

theorem unresolved_records_excluded:
  assumes "open_csv csv_file = Some rows"
    and "load_students open_csv py_int py_float csv_file = (warnings, Inr ss)"
    and "create_data_model py_int ors ss bs school key = Inr d"
  shows "list_all2 (loaded_from py_int py_float) (students d) (filter (\<lambda>r. \<not> unresolved r) rows) \<and>
         list_all2 warned_for warnings (filter unresolved rows) \<and>
         coords d = school # map (\<lambda>s. (student_lon s, student_lat s)) (students d) \<and>
         length (coords d) = 1 + length (filter (\<lambda>r. \<not> unresolved r) rows) \<and>
         length (demands d) = 1 + length (filter (\<lambda>r. \<not> unresolved r) rows) \<and>
         sum_list (demands d) = int (length (filter (\<lambda>r. \<not> unresolved r) rows)) \<and>
         (\<forall>R solution ls err ns n.
            print_solution d R solution = Some (ls, err) \<and> AssignedStudents ns \<in> set ls \<and>
            n \<in> set ns \<longrightarrow>
              (\<exists>r \<in> set rows. \<not> unresolved r \<and> r ''name'' = Some n))"
proof -
  from assms(1,2) have "load_students_rows py_int py_float rows = (warnings, Inr ss)"
    by (simp add: load_students_def)
  from load_students_rows_Inr[OF this]
  have kept: "list_all2 (loaded_from py_int py_float) ss (filter (\<lambda>r. \<not> unresolved r) rows)"
    and warned: "list_all2 warned_for warnings (filter unresolved rows)"
    by simp_all
  from kept have len: "length ss = length (filter (\<lambda>r. \<not> unresolved r) rows)"
    by (rule list_all2_lengthD)
  have "sum_list (replicate (length ss) (1 :: int)) = int (length ss)"
    by (simp add: sum_list_replicate)
  with create_data_model_Inr[OF assms(3)] kept warned len
  have model: "list_all2 (loaded_from py_int py_float) (students d) (filter (\<lambda>r. \<not> unresolved r) rows) \<and>
         list_all2 warned_for warnings (filter unresolved rows) \<and>
         coords d = school # map (\<lambda>s. (student_lon s, student_lat s)) (students d) \<and>
         length (coords d) = 1 + length (filter (\<lambda>r. \<not> unresolved r) rows) \<and>
         length (demands d) = 1 + length (filter (\<lambda>r. \<not> unresolved r) rows) \<and>
         sum_list (demands d) = int (length (filter (\<lambda>r. \<not> unresolved r) rows))"
    by simp
  have routes: "\<exists>r \<in> set rows. \<not> unresolved r \<and> r ''name'' = Some n"
    if "print_solution d R solution = Some (ls, err)" "AssignedStudents ns \<in> set ls" "n \<in> set ns"
    for R solution ls err ns n
  proof -
    from print_solution_students[OF that(1,2)] that(3) obtain s where
      s: "s \<in> set (students d)" "n = student_name s"
      by blast
    from model have "list_all2 (loaded_from py_int py_float) (students d)
        (filter (\<lambda>r. \<not> unresolved r) rows)"
      by simp
    with s(1) obtain r where "r \<in> set (filter (\<lambda>r. \<not> unresolved r) rows)"
      "loaded_from py_int py_float s r"
      using list_all2_setD1 by force
    with s(2) show ?thesis
      by (auto simp: loaded_from_def)
  qed
  from model routes show ?thesis
    by blast
qed

theorem unresolved_records_excluded_witness:
  "load_students (\<lambda>_. Some example_rows) example_int example_float ''students.csv'' =
     ([SkippingStudent ''Bir'', SkippingStudent ''Dev''], Inr example_students) \<and>
   filter unresolved example_rows = [example_bir, example_dev] \<and>
   (\<exists>d. create_data_model example_int (\<lambda>_ _. Inr (Some example_matrix))
          example_students [\<lparr>bus_id = 1, bus_capacity = 3\<rparr>] (''76.3647'', ''30.3565'') ''key''
          = Inr d \<and>
        length (coords d) = 3 \<and> length (demands d) = 3 \<and> sum_list (demands d) = 2)"
proof -
  have h1: "(\<lambda>_. Some example_rows) ''students.csv'' = Some example_rows" by simp
  have f: "filter unresolved example_rows = [example_bir, example_dev]"
    "filter (\<lambda>r. \<not> unresolved r) example_rows = [example_asha, example_chand]"
    by (simp_all add: example_rows_def example_unresolved)
  obtain d where h3: "create_data_model example_int (\<lambda>_ _. Inr (Some example_matrix))
          example_students [\<lparr>bus_id = 1, bus_capacity = 3\<rparr>] (''76.3647'', ''30.3565'') ''key''
          = Inr d"
    by (simp add: create_data_model_def example_matrix_built)
  have n: "1 + length (filter (\<lambda>r. \<not> unresolved r) example_rows) = 3"
    "int (length (filter (\<lambda>r. \<not> unresolved r) example_rows)) = 2"
    by (simp_all add: f)
  from unresolved_records_excluded[OF h1 example_rows_loaded h3]
  have "length (coords d) = 1 + length (filter (\<lambda>r. \<not> unresolved r) example_rows)"
    "length (demands d) = 1 + length (filter (\<lambda>r. \<not> unresolved r) example_rows)"
    "sum_list (demands d) = int (length (filter (\<lambda>r. \<not> unresolved r) example_rows))"
    by blast+
  then have "length (coords d) = 3 \<and> length (demands d) = 3 \<and> sum_list (demands d) = 2"
    by (simp only: n)
  with example_rows_loaded h3 f show ?thesis by blast
qed

section \<open>Capacity is left to the solver\<close>




section \<open>One message for every failure of the solver\<close>




section \<open>The total distance of the report\<close>

text \<open>
  C4. Whenever the reporter finishes, the last line it prints is the total distance, and
  that total is the sum, over every vehicle from 0 to the number of vehicles (a vehicle
  that carries nobody and prints nothing included), of the distance of the route that the
  solution gives the vehicle, the distance of a route being the sum of the costs of its
  consecutive arcs in the direction of travel. And when every vehicle has such a route
  within the tables of the data model, the reporter does finish with that total.
\<close>

theorem print_solution_total_distance:
  "(print_solution data R solution = Some (ls, None) \<longrightarrow>
      (\<exists>ps. list_all2 (\<lambda>v p. is_route R solution (Start R v) p) [0..<num_vehicles data] ps \<and>
            ls \<noteq> [] \<and>
            last ls = TotalDistance
              (sum_list (map2 (route_distance R) [0..<num_vehicles data] ps)))) \<and>
   (list_all2 (\<lambda>v p. is_route R solution (Start R v) p \<and> nodes_in_range data R p)
        [0..<num_vehicles data] qs \<and> num_vehicles data \<le> length (buses data) \<longrightarrow>
      (\<exists>ls'. print_solution data R solution =
          Some (ls' @ [TotalDistance
                 (sum_list (map2 (route_distance R) [0..<num_vehicles data] qs))], None)))"
proof (intro conjI impI)
  assume "print_solution data R solution = Some (ls, None)"
  then obtain ls0 t where run: "vehicles_loop data R solution [0..<num_vehicles data] 0 = Some (ls0, Inr t)"
    and ls: "ls = ls0 @ [TotalDistance t]"
    by (auto simp: print_solution_def split: option.splits sum.splits prod.splits)
  from vehicles_loop_sound[OF run] ls
  show "\<exists>ps. list_all2 (\<lambda>v p. is_route R solution (Start R v) p) [0..<num_vehicles data] ps \<and>
            ls \<noteq> [] \<and>
            last ls = TotalDistance
              (sum_list (map2 (route_distance R) [0..<num_vehicles data] ps))"
    by auto
next
  assume h: "list_all2 (\<lambda>v p. is_route R solution (Start R v) p \<and> nodes_in_range data R p)
        [0..<num_vehicles data] qs \<and> num_vehicles data \<le> length (buses data)"
  then have "\<forall>v \<in> set [0..<num_vehicles data]. v < length (buses data)" by auto
  from vehicles_loop_complete[OF conjunct1[OF h] this, of 0]
  show "\<exists>ls'. print_solution data R solution =
          Some (ls' @ [TotalDistance
                 (sum_list (map2 (route_distance R) [0..<num_vehicles data] qs))], None)"
    by (auto simp: print_solution_def)
qed

theorem print_solution_total_distance_witness:
  "\<exists>ls. print_solution example_data (example_routing (routing_model_of example_data))
          example_solution = Some (ls @ [TotalDistance 15], None)"
proof -
  let ?R = "example_routing (routing_model_of example_data)"
  have v: "[0..<num_vehicles example_data] = [0, 1]"
    by (simp add: example_data_def upt_rec)
  have r: "is_route ?R example_solution (Start ?R 0) [0, 1, 2, 4]"
    "is_route ?R example_solution (Start ?R 1) [3, 5]"
    by (simp_all add: example_routing_def example_solution_def)
  have n: "nodes_in_range example_data ?R [0, 1, 2, 4]"
    "nodes_in_range example_data ?R [3, 5]"
    by (simp_all add: nodes_in_range_def example_routing_def example_node_def
          example_data_def example_students_def)
  have d: "route_distance ?R 0 [0, 1, 2, 4] = 15" "route_distance ?R 1 [3, 5] = 0"
    by (simp_all add: route_distance_def example_routing_def example_node_def
          routing_model_of_def example_data_def)
  have b: "num_vehicles example_data \<le> length (buses example_data)"
    by (simp add: example_data_def)
  have h: "list_all2 (\<lambda>v p. is_route ?R example_solution (Start ?R v) p \<and>
                 nodes_in_range example_data ?R p)
             [0..<num_vehicles example_data] [[0, 1, 2, 4], [3, 5]] \<and>
           num_vehicles example_data \<le> length (buses example_data)"
    unfolding v by (intro conjI list.rel_intros r n b)
  have s: "sum_list (map2 (route_distance ?R) [0..<num_vehicles example_data]
             [[0, 1, 2, 4], [3, 5]]) = 15"
    unfolding v using d by simp
  from conjunct2[OF print_solution_total_distance, rule_format, OF h]
  show ?thesis
    unfolding s .
qed

section \<open>The matrix is built whole or not at all\<close>

text \<open>
  C5 (amended). The build returns a matrix exactly when the provider returns a table
  every entry of which \<open>int\<close> converts, and the matrix then has the rows and entries of
  that table, one for one; so when any entry of the table is null, NaN, infinite, nested
  or a text that \<open>int\<close> rejects, the build raises and returns no matrix. The shape of the
  table is not compared with the number of coordinates.
\<close>

theorem build_distance_matrix_ors_all_or_nothing:
  "(build_distance_matrix_ors py_int client cs = Inr m \<longleftrightarrow>
      (\<exists>ds. client (distance_matrix_request cs) = Inr (Some ds) \<and>
            list_all2 (list_all2 (\<lambda>d i. to_int py_int d = Inr i)) ds m)) \<and>
   (client (distance_matrix_request cs) = Inr (Some table) \<and>
    (\<exists>row \<in> set table. \<exists>d \<in> set row. int_rejects py_int d) \<longrightarrow>
      (\<exists>e. build_distance_matrix_ors py_int client cs = Inl e))"
proof (intro conjI impI iffI)
  assume "build_distance_matrix_ors py_int client cs = Inr m"
  then obtain ds where "client (distance_matrix_request cs) = Inr (Some ds)"
    "int_rows py_int ds = Inr m"
    by (auto simp: build_distance_matrix_ors_def split: sum.splits option.splits)
  then show "\<exists>ds. client (distance_matrix_request cs) = Inr (Some ds) \<and>
            list_all2 (list_all2 (\<lambda>d i. to_int py_int d = Inr i)) ds m"
    using int_rows_sound by blast
next
  assume "\<exists>ds. client (distance_matrix_request cs) = Inr (Some ds) \<and>
            list_all2 (list_all2 (\<lambda>d i. to_int py_int d = Inr i)) ds m"
  then show "build_distance_matrix_ors py_int client cs = Inr m"
    by (auto simp: build_distance_matrix_ors_def dest: int_rows_complete)
next
  assume "client (distance_matrix_request cs) = Inr (Some table) \<and>
    (\<exists>row \<in> set table. \<exists>d \<in> set row. int_rejects py_int d)"
  then show "\<exists>e. build_distance_matrix_ors py_int client cs = Inl e"
    using int_rows_rejects[of _ table _ py_int]
    by (auto simp: build_distance_matrix_ors_def)
qed

theorem build_distance_matrix_ors_all_or_nothing_witness:
  "(\<exists>e. build_distance_matrix_ors example_int
          (\<lambda>_. Inr (Some [[IntNum 0, Null], [FloatNum 4.5, IntNum 0]]))
          [(76 :: int, 30 :: int), (77, 31)] = Inl e) \<and>
   build_distance_matrix_ors example_int (\<lambda>_. Inr (Some example_matrix))
          [(76 :: int, 30 :: int), (77, 31), (78, 32)] = Inr [[0, 5, 7], [5, 0, 3], [7, 3, 0]]"
proof -
  have n: "int_rejects example_int Null"
    by (simp add: int_rejects_def)
  have h: "(\<lambda>_. Inr (Some [[IntNum 0, Null], [FloatNum 4.5, IntNum 0]]))
             (distance_matrix_request [(76 :: int, 30 :: int), (77, 31)]) =
           Inr (Some [[IntNum 0, Null], [FloatNum 4.5, IntNum 0]]) \<and>
         (\<exists>row \<in> set [[IntNum 0, Null], [FloatNum 4.5, IntNum 0]].
            \<exists>d \<in> set row. int_rejects example_int d)"
    using n by simp
  have "\<exists>e. build_distance_matrix_ors example_int
          (\<lambda>_. Inr (Some [[IntNum 0, Null], [FloatNum 4.5, IntNum 0]]))
          [(76 :: int, 30 :: int), (77, 31)] = Inl e"
    by (rule conjunct2[OF build_distance_matrix_ors_all_or_nothing, rule_format, OF h])
  then show ?thesis
    using example_matrix_built by blast
qed

text \<open>
  C5 as stated fails: for two coordinates the provider returns a table whose second
  row lacks an entry, and the build returns that table as the matrix, a row short.
\<close>

theorem build_distance_matrix_ors_partial_counterexample:
  "build_distance_matrix_ors example_int (\<lambda>_. Inr (Some [[IntNum 0, IntNum 5], [IntNum 3]]))
      [(76 :: int, 30 :: int), (77, 31)] = Inr [[0, 5], [3]] \<and>
   length ([[0, 5], [3 :: int]] ! 1) < length [(76 :: int, 30 :: int), (77, 31)]"
  by (simp add: build_distance_matrix_ors_def to_int_def)

section \<open>What the entry point takes as arguments\<close>

text \<open>
  C6 (amended). The school (depot) coordinate and the API key are arguments of the entry
  point: the request for the matrix carries the key given and has \<open>(school_lon,
  school_lat)\<close> as its first location. The travel profile and the time budget are not
  arguments: in every run, whatever the arguments, the request has the profile
  \<open>driving-car\<close>, and the solver is called with a time limit of 10 seconds.
\<close>

theorem optimize_with_ors_configuration:
  "optimize_with_ors env sc bc lat lon key = Some (t, err) \<longrightarrow>
     (\<forall>k req. DistanceMatrix k req \<in> set t \<longrightarrow>
        k = key \<and> hd (locations req) = (lon, lat) \<and> profile req = ''driving-car'') \<and>
     (\<forall>m p. Solve m p \<in> set t \<longrightarrow> model_depot m = 0 \<and> time_limit_seconds p = 10)"
proof
  assume run: "optimize_with_ors env sc bc lat lon key = Some (t, err)"
  have req: "k = key \<and> hd (locations req) = (lon, lat) \<and> profile req = ''driving-car''"
    if "DistanceMatrix k req = DistanceMatrix key (distance_matrix_request (model_coords (lon, lat) ss))"
    for k req and ss :: "'a student list"
    using that by (auto simp: distance_matrix_request_def model_coords_def)
  show "(\<forall>k req. DistanceMatrix k req \<in> set t \<longrightarrow>
        k = key \<and> hd (locations req) = (lon, lat) \<and> profile req = ''driving-car'') \<and>
     (\<forall>m p. Solve m p \<in> set t \<longrightarrow> model_depot m = 0 \<and> time_limit_seconds p = 10)"
  proof (cases "load_students (env_open_csv env) (env_int env) (env_float env) sc")
    case (Pair ws res)
    show ?thesis
    proof (cases res)
      case (Inl e)
      with Pair run show ?thesis
        by (auto simp: optimize_with_ors_def)
    next
      case (Inr ss)
      note ss = this
      show ?thesis
      proof (cases "load_buses (env_open_csv env) (env_int env) bc")
        case (Inl e)
        with Pair ss run show ?thesis
          by (auto simp: optimize_with_ors_def)
      next
        case (Inr bs)
        note bs = this
        show ?thesis
        proof (cases "create_data_model (env_int env) (env_openrouteservice env) ss bs (lon, lat) key")
          case (Inl e)
          with Pair ss bs run have "t = map Print ws @
              [DistanceMatrix key (distance_matrix_request (model_coords (lon, lat) ss))]"
            by (auto simp: optimize_with_ors_def Let_def)
          then show ?thesis
            using req[of _ _ ss] by auto
        next
          case (Inr d)
          have dep: "model_depot (routing_model_of d) = 0"
            using create_data_model_Inr[OF Inr] by (simp add: routing_model_of_def)
          have lim: "time_limit_seconds routing_search_parameters = 10"
            by (simp add: routing_search_parameters_def)
          show ?thesis
          proof (cases "env_routing env (routing_model_of d)")
            case (Inl e)
            with Pair ss bs Inr run have "t = map Print ws @
                [DistanceMatrix key (distance_matrix_request (model_coords (lon, lat) ss))]"
              by (auto simp: optimize_with_ors_def Let_def)
            then show ?thesis
              using req[of _ _ ss] by auto
          next
            case R: (Inr R)
            have "\<exists>ls. t = map Print ws @
                [DistanceMatrix key (distance_matrix_request (model_coords (lon, lat) ss)),
                 Solve (routing_model_of d) routing_search_parameters] @ map Print ls"
            proof (cases "env_solve env (routing_model_of d) routing_search_parameters")
              case (Inl e)
              with run show ?thesis
                unfolding optimize_with_ors_built[OF Pair[unfolded ss] bs Inr R]
                by (intro exI[of _ "[]"]) auto
            next
              case answer: (Inr answer)
              show ?thesis
              proof (cases answer)
                case None
                with answer run show ?thesis
                  unfolding optimize_with_ors_built[OF Pair[unfolded ss] bs Inr R]
                  by (intro exI[of _ "[Message ''No solution found.'']"]) simp
              next
                case (Some solution)
                with answer run show ?thesis
                  unfolding optimize_with_ors_built[OF Pair[unfolded ss] bs Inr R]
                  by (auto split: option.splits)
              qed
            qed
            then obtain ls where "t = map Print ws @
                [DistanceMatrix key (distance_matrix_request (model_coords (lon, lat) ss)),
                 Solve (routing_model_of d) routing_search_parameters] @ map Print ls"
              by blast
            then show ?thesis
              using req[of _ _ ss] dep lim by auto
          qed
        qed
      qed
    qed
  qed
qed

theorem optimize_with_ors_configuration_witness:
  "\<exists>t req m p. optimize_with_ors (example_env example_two_buses None) ''students.csv''
          ''buses.csv'' ''30.3565'' ''76.3647'' ''key'' = Some (t, None) \<and>
        DistanceMatrix ''key'' req \<in> set t \<and> Solve m p \<in> set t \<and>
        hd (locations req) = (''76.3647'', ''30.3565'') \<and> profile req = ''driving-car'' \<and>
        model_depot m = 0 \<and> time_limit_seconds p = 10"
proof -
  let ?req = "\<lparr>locations = [(''76.3647'', ''30.3565''), (''76.36'', ''30.35''), (''76.38'', ''30.34'')],
               profile = ''driving-car'', metrics = [''distance''], units = ''m''\<rparr>"
  let ?m = "\<lparr>model_num_nodes = 3, model_num_vehicles = 2, model_depot = 0,
               model_arc_costs = [[0, 5, 7], [5, 0, 3], [7, 3, 0]],
               model_demands = [0, 1, 1], model_slack_max = 0, model_capacities = [1, 1],
               model_fix_start_cumul_to_zero = True, model_dimension = ''Capacity''\<rparr>"
  let ?p = "\<lparr>first_solution = PATH_CHEAPEST_ARC, metaheuristic = GUIDED_LOCAL_SEARCH,
               time_limit_seconds = 10\<rparr>"
  let ?t = "[Print (SkippingStudent ''Bir''), Print (SkippingStudent ''Dev''), DistanceMatrix ''key'' ?req, Solve ?m ?p,
            Print (Message ''No solution found.'')]"
  have run: "optimize_with_ors (example_env example_two_buses None) ''students.csv''
          ''buses.csv'' ''30.3565'' ''76.3647'' ''key'' = Some (?t, None)"
    by (rule example_run_two_buses)
  have r: "DistanceMatrix ''key'' ?req \<in> set ?t" and s: "Solve ?m ?p \<in> set ?t"
    by simp_all
  from optimize_with_ors_configuration[rule_format, OF run]
  have "\<forall>k req. DistanceMatrix k req \<in> set ?t \<longrightarrow>
        k = ''key'' \<and> hd (locations req) = (''76.3647'', ''30.3565'') \<and> profile req = ''driving-car''"
    and "\<forall>m p. Solve m p \<in> set ?t \<longrightarrow> model_depot m = 0 \<and> time_limit_seconds p = 10"
    by blast+
  with r s have "hd (locations ?req) = (''76.3647'', ''30.3565'') \<and> profile ?req = ''driving-car''"
    and "model_depot ?m = 0 \<and> time_limit_seconds ?p = 10"
    by blast+
  with run r s show ?thesis
    by blast
qed

text \<open>
  C6 as stated fails for the profile and the time budget: two runs that differ in every
  argument that the entry point has for the school and the key send requests with two
  different first locations and keys, and both carry the profile \<open>driving-car\<close> and
  the time limit 10, which no argument holds.
\<close>

theorem optimize_with_ors_configuration_counterexample:
  "optimize_with_ors (example_env example_one_bus None) ''students.csv'' ''buses.csv''
      ''30.3565'' ''76.3647'' ''key'' =
     Some ([Print (SkippingStudent ''Bir''), Print (SkippingStudent ''Dev''),
            DistanceMatrix ''key''
              \<lparr>locations = [(''76.3647'', ''30.3565''), (''76.36'', ''30.35''), (''76.38'', ''30.34'')],
               profile = ''driving-car'', metrics = [''distance''], units = ''m''\<rparr>,
            Solve
              \<lparr>model_num_nodes = 3, model_num_vehicles = 1, model_depot = 0,
               model_arc_costs = [[0, 5, 7], [5, 0, 3], [7, 3, 0]],
               model_demands = [0, 1, 1], model_slack_max = 0, model_capacities = [1],
               model_fix_start_cumul_to_zero = True, model_dimension = ''Capacity''\<rparr>
              \<lparr>first_solution = PATH_CHEAPEST_ARC, metaheuristic = GUIDED_LOCAL_SEARCH,
               time_limit_seconds = 10\<rparr>,
            Print (Message ''No solution found.'')], None) \<and>
   optimize_with_ors (example_env example_one_bus None) ''students.csv'' ''buses.csv''
      ''12.5'' ''77.25'' ''other'' =
     Some ([Print (SkippingStudent ''Bir''), Print (SkippingStudent ''Dev''),
            DistanceMatrix ''other''
              \<lparr>locations = [(''77.25'', ''12.5''), (''76.36'', ''30.35''), (''76.38'', ''30.34'')],
               profile = ''driving-car'', metrics = [''distance''], units = ''m''\<rparr>,
            Solve
              \<lparr>model_num_nodes = 3, model_num_vehicles = 1, model_depot = 0,
               model_arc_costs = [[0, 5, 7], [5, 0, 3], [7, 3, 0]],
               model_demands = [0, 1, 1], model_slack_max = 0, model_capacities = [1],
               model_fix_start_cumul_to_zero = True, model_dimension = ''Capacity''\<rparr>
              \<lparr>first_solution = PATH_CHEAPEST_ARC, metaheuristic = GUIDED_LOCAL_SEARCH,
               time_limit_seconds = 10\<rparr>,
            Print (Message ''No solution found.'')], None)"
  by (simp add: example_run_one_bus)

section \<open>A failed lookup does not end the batch\<close>

text \<open>
  C8. The geocoder's answer never ends the batch: with any two geocoders the same
  addresses are queried, as many rows are written and the run ends alike; and when
  every row has an address and no key outside the columns written, whatever the geocoder
  raises or returns, every address is queried in order, one row is written for each input
  row, and the run ends without an exception.
\<close>

theorem geocoding_failure_isolated:
  "queried (geocode_addresses client input out) = queried (geocode_addresses client' input out) \<and>
   length (written_rows (geocode_addresses client input out)) =
     length (written_rows (geocode_addresses client' input out)) \<and>
   raised (geocode_addresses client input out) = raised (geocode_addresses client' input out) \<and>
   (fst input = Some header \<and>
    (\<forall>r \<in> set (snd input). Some ''address'' \<in> fst ` set r \<and>
                              fst ` set r \<subseteq> Some ` (set header \<union> {''lat'', ''lon''})) \<longrightarrow>
      queried (geocode_addresses client input out) = addresses (snd input) \<and>
      length (addresses (snd input)) = length (snd input) \<and>
      length (written_rows (geocode_addresses client input out)) = length (snd input) \<and>
      raised (geocode_addresses client input out) = None)"
proof -
  have shape: "queried (geocode_addresses client input out) = queried (geocode_addresses client' input out) \<and>
   length (written_rows (geocode_addresses client input out)) =
     length (written_rows (geocode_addresses client' input out)) \<and>
   raised (geocode_addresses client input out) = raised (geocode_addresses client' input out)"
  proof (cases "fst input")
    case None
    then show ?thesis by (simp add: geocode_addresses_def)
  next
    case (Some h)
    with geocode_rows_shape[of client "h @ [''lat'', ''lon'']" "snd input" client']
    show ?thesis
      by (auto simp: geocode_addresses_def Let_def split: prod.splits option.splits)
  qed
  have all: "queried (geocode_addresses client input out) = addresses (snd input) \<and>
      length (addresses (snd input)) = length (snd input) \<and>
      length (written_rows (geocode_addresses client input out)) = length (snd input) \<and>
      raised (geocode_addresses client input out) = None"
    if h: "fst input = Some header"
      and ok: "\<forall>r \<in> set (snd input). Some ''address'' \<in> fst ` set r \<and>
                              fst ` set r \<subseteq> Some ` (set header \<union> {''lat'', ''lon''})"
  proof -
    from ok have "\<forall>r \<in> set (snd input). Some ''address'' \<in> fst ` set r \<and>
        writable (header @ [''lat'', ''lon'']) r"
      using writable_header by blast
    from geocode_rows_all[OF this, of client] h show ?thesis
      by (auto simp: geocode_addresses_def Let_def)
  qed
  from shape all show ?thesis by blast
qed

theorem geocoding_failure_isolated_witness:
  "queried (geocode_addresses example_geocoder (DictReader example_addresses) ''students.csv'') =
     [Text ''A'', Text ''B'', Text ''C'', NoneCell] \<and>
   length (written_rows
     (geocode_addresses example_geocoder (DictReader example_addresses) ''students.csv'')) = 4 \<and>
   raised (geocode_addresses example_geocoder (DictReader example_addresses) ''students.csv'') = None \<and>
   example_geocoder (Text ''B'') = Inl (ApiError ''timeout'') \<and>
   example_geocoder (Text ''C'') = Inr (Some [])"
proof -
  let ?input = "DictReader example_addresses :: string list option \<times> int csv_row list"
  have h: "fst ?input = Some [''name'', ''address''] \<and>
    (\<forall>r \<in> set (snd ?input). Some ''address'' \<in> fst ` set r \<and>
        fst ` set r \<subseteq> Some ` (set [''name'', ''address''] \<union> {''lat'', ''lon''}))"
    by (simp add: example_addresses_def DictReader_def dict_of_row_def)
  have a: "addresses (snd ?input) = [Text ''A'', Text ''B'', Text ''C'', NoneCell]"
    by (simp add: example_addresses_def DictReader_def dict_of_row_def addresses_def
        List.map_filter_simps)
  have l: "length (snd ?input) = 4"
    by (simp add: example_addresses_def DictReader_def)
  from geocoding_failure_isolated[of example_geocoder ?input "''students.csv''"
      example_geocoder "[''name'', ''address'']"] h a l
  show ?thesis
    by (simp add: example_geocoder_def)
qed

section \<open>One output row for each input row\<close>

text \<open>
  C10 (amended). For every input file whose header has an \<open>address\<close> column, no \<open>lat\<close>
  or \<open>lon\<close> column and no column name twice, and whose rows are none longer than the
  header, the run ends without an exception, writes the header extended by \<open>lat\<close> and
  \<open>lon\<close>, and writes exactly one row for each input row that is not blank, in order:
  the cells of the input row unchanged (an empty field for every column that a short row
  does not reach), then the latitude and the longitude. Both are the empty text when the
  geocoder raises or its answer has no features, no coordinates or fewer than two of
  them, and they are the second and the first coordinate of the first feature otherwise.
\<close>

theorem geocode_addresses_one_row_each:
  fixes client :: "'c geocoder"
  assumes "distinct header" and "''address'' \<in> set header"
    and "''lat'' \<notin> set header" and "''lon'' \<notin> set header"
    and "\<forall>row \<in> set rows. length row \<le> length header"
  shows "raised (geocode_addresses client (DictReader (header # rows)) out) = None \<and>
         written_header (geocode_addresses client (DictReader (header # rows)) out) =
           Some (header @ [''lat'', ''lon'']) \<and>
         list_all2
           (\<lambda>w row. \<exists>a la lo. address_cell header row = Some a \<and>
                    w = original_cells header row @ [la, lo] \<and>
                    (geocoding_failed client a \<longrightarrow> la = Text [] \<and> lo = Text []) \<and>
                    (\<forall>cs fs. client a = Inr (Some (Some cs # fs)) \<and> 2 \<le> length cs \<longrightarrow>
                       la = Coord (cs ! 1) \<and> lo = Coord (cs ! 0)))
           (written_rows (geocode_addresses client (DictReader (header # rows)) out))
           (filter (\<lambda>row. row \<noteq> []) rows)"
proof -
  let ?rows = "filter (\<lambda>row. row \<noteq> []) rows"
  let ?a = "\<lambda>r. the (map_of r (Some ''address''))"
  let ?f = "\<lambda>r. map (\<lambda>k. if k = ''lat'' then snd (assigned client (?a r))
                              else if k = ''lon'' then fst (assigned client (?a r))
                              else (case map_of r (Some k) of None \<Rightarrow> Text [] | Some c \<Rightarrow> c))
                   (header @ [''lat'', ''lon''])"
  let ?P = "\<lambda>w row. \<exists>a la lo. address_cell header row = Some a \<and>
                    w = original_cells header row @ [la, lo] \<and>
                    (geocoding_failed client a \<longrightarrow> la = Text [] \<and> lo = Text []) \<and>
                    (\<forall>cs fs. client a = Inr (Some (Some cs # fs)) \<and> 2 \<le> length cs \<longrightarrow>
                       la = Coord (cs ! 1) \<and> lo = Coord (cs ! 0))"
  have len: "length row \<le> length header" if "row \<in> set ?rows" for row
    using that assms(5) by simp
  have "\<forall>r :: 'c csv_row \<in> set (map (dict_of_row header) ?rows).
      Some ''address'' \<in> fst ` set r \<and> writable (header @ [''lat'', ''lon'']) r"
  proof
    fix r :: "'c csv_row"
    assume "r \<in> set (map (dict_of_row header) ?rows)"
    then obtain row where row: "row \<in> set ?rows" and r: "r = dict_of_row header row"
      by auto
    from dict_of_row_keys[OF len[OF row]] r have "fst ` set r = Some ` set header"
      by simp
    with assms(2) show "Some ''address'' \<in> fst ` set r \<and> writable (header @ [''lat'', ''lon'']) r"
      by (auto simp: writable_def)
  qed
  from geocode_rows_all[OF this, of client] obtain p where
    run: "geocode_rows client (header @ [''lat'', ''lon'']) (map (dict_of_row header) ?rows) =
            (map ?f (map (dict_of_row header) ?rows),
             addresses (map (dict_of_row header) ?rows), p, None)"
    by blast
  have each: "?P (?f (dict_of_row header row)) row" if "row \<in> set ?rows" for row
  proof -
    from assms(2) len[OF that] obtain a :: "'c cell" where a: "address_cell header row = Some a"
      unfolding address_cell_def
      using map_of_zip_is_Some[of header "original_cells header row" "''address''"]
      by (auto simp: length_original_cells)
    then have l: "map_of (dict_of_row header row) (Some ''address'') = Some a"
      by (simp add: dict_of_row_lookup[OF len[OF that] assms(1)] address_cell_def)
    have w: "?f (dict_of_row header row) =
        original_cells header row @ [snd (assigned client a), fst (assigned client a)]"
      unfolding l option.sel
      by (rule dict_of_row_written[OF len[OF that] assms(1,3,4)])
    show ?thesis
      using a w by (auto simp: assigned_failed assigned_found)
  qed
  have "list_all2 ?P (map (\<lambda>row. ?f (dict_of_row header row)) ?rows) ?rows"
    unfolding list_all2_map1 using each by (simp add: list_all2_same)
  with run show ?thesis
    by (simp add: geocode_addresses_def DictReader_def Let_def comp_def)
qed

theorem geocode_addresses_one_row_each_witness:
  "raised (geocode_addresses example_geocoder (DictReader example_addresses) ''students.csv'') = None \<and>
   written_header (geocode_addresses example_geocoder (DictReader example_addresses) ''students.csv'') =
     Some [''name'', ''address'', ''lat'', ''lon''] \<and>
   written_rows (geocode_addresses example_geocoder (DictReader example_addresses) ''students.csv'') =
     [[Text ''Asha'', Text ''A'', Coord 30, Coord 76],
      [Text ''Bir'', Text ''B'', Text [], Text []],
      [Text ''Chand'', Text ''C'', Text [], Text []],
      [Text ''Dev'', NoneCell, Text [], Text []]] \<and>
   geocoding_failed example_geocoder (Text ''B'') \<and>
   geocoding_failed example_geocoder (Text ''C'') \<and>
   geocoding_failed example_geocoder NoneCell"
proof -
  have h: "distinct [''name'', ''address'']" "''address'' \<in> set [''name'', ''address'']"
    "''lat'' \<notin> set [''name'', ''address'']" "''lon'' \<notin> set [''name'', ''address'']"
    "\<forall>row \<in> set (tl example_addresses). length row \<le> length [''name'', ''address'']"
    by (simp_all add: example_addresses_def)
  have e: "example_addresses = [''name'', ''address''] # tl example_addresses"
    by (simp add: example_addresses_def)
  have rows: "written_rows
      (geocode_addresses example_geocoder (DictReader example_addresses) ''students.csv'') =
     [[Text ''Asha'', Text ''A'', Coord 30, Coord 76],
      [Text ''Bir'', Text ''B'', Text [], Text []],
      [Text ''Chand'', Text ''C'', Text [], Text []],
      [Text ''Dev'', NoneCell, Text [], Text []]]"
    by (simp add: geocode_addresses_def DictReader_def dict_of_row_def example_addresses_def
        geocode_row_def writerow_def lookup_coordinates_def example_geocoder_def item_def)
  from geocode_addresses_one_row_each[OF h, of example_geocoder "''students.csv''"] rows
  show ?thesis
    unfolding e[symmetric]
    by (simp add: geocoding_failed_def example_geocoder_def)
qed

text \<open>
  C10 as stated fails: an input with no \<open>address\<close> column raises \<open>KeyError\<close> at its
  first row and no row is written; an input that already has a \<open>lat\<close> column loses that
  field to the new latitude; a row that is longer than the header raises \<open>ValueError\<close>
  in the writer; under a column name that the header has twice, the first cell is lost
  to the second.
\<close>

theorem geocode_addresses_one_row_each_counterexample:
  "geocode_addresses example_geocoder
      (DictReader [[''id'', ''name''], [''1'', ''Asha'']]) ''students.csv'' =
     \<lparr>written_header = Some [''id'', ''name'', ''lat'', ''lon''], written_rows = [],
      queried = [], printed = [], raised = Some (KeyError ''address'')\<rparr> \<and>
   written_rows (geocode_addresses example_geocoder
      (DictReader [[''address'', ''lat''], [''A'', ''1.5'']]) ''students.csv'') =
     [[Text ''A'', Coord 30, Coord 30, Coord 76]] \<and>
   geocode_addresses example_geocoder
      (DictReader [[''address''], [''A'', ''x'']]) ''students.csv'' =
     \<lparr>written_header = Some [''address'', ''lat'', ''lon''], written_rows = [],
      queried = [Text ''A''], printed = [],
      raised = Some (ValueError ''dict contains fields not in fieldnames'')\<rparr> \<and>
   written_rows (geocode_addresses example_geocoder
      (DictReader [[''name'', ''name'', ''address''], [''Asha'', ''Kumar'', ''A'']]) ''students.csv'') =
     [[Text ''Kumar'', Text ''Kumar'', Text ''A'', Coord 30, Coord 76]]"
  by (simp add: geocode_addresses_def DictReader_def dict_of_row_def geocode_row_def writerow_def
        lookup_coordinates_def example_geocoder_def item_def)

end
